theory Spec2Isabelle
  imports Main "HOL-Library.AList"
begin

section \<open>Data model of \<^verbatim>\<open>backend/main.py\<close>\<close>

text \<open>
  The service has three POST handlers (\<^verbatim>\<open>test_connection\<close>, \<^verbatim>\<open>execute_sql\<close>,
  \<^verbatim>\<open>download_file\<close>) over one request record.

  A Python \<^verbatim>\<open>str\<close> is a list of Unicode characters: \<open>Ch c\<close> is the character with the
  code point of the 8-bit \<open>c\<close> (below 256), \<open>Wide n\<close> the character with code point
  \<open>256 + n\<close>. A Python \<^verbatim>\<open>bytes\<close> object is a list of 8-bit characters. \<open>lit\<close>
  writes a \<^verbatim>\<open>str\<close> literal. An exception is represented by its text \<^verbatim>\<open>str(e)\<close>, which is
  all the handlers read of it.
\<close>

datatype uchar = Ch char | Wide nat

type_synonym ustr = "uchar list"

type_synonym bytes = "char list"

abbreviation lit :: "string \<Rightarrow> ustr" where
  "lit s \<equiv> map Ch s"

record DynamicRequest =
  SERVER :: ustr
  DATABASE :: ustr
  USERNAME :: ustr
  PASSWORD :: ustr
  QUERY :: ustr
  DELIMITER :: ustr
  FORMAT :: ustr

text \<open>
  A cell of a pandas DataFrame: \<^verbatim>\<open>None\<close>, the float NaN, a \<^verbatim>\<open>str\<close>, or any other
  (non-missing) value, left abstract in \<open>'a\<close>.
\<close>

datatype 'a pyval = PNone | PNaN | PStr ustr | PVal 'a

record 'a frame =
  columns :: "ustr list"
  rows :: "'a pyval list list"

text \<open>
  What the database driver reports for a query: the columns with their ODBC type codes and
  the rows of raw values, \<open>None\<close> for SQL NULL and \<open>Some b\<close> for the bytes \<open>b\<close>.
\<close>

record resultset =
  rs_columns :: "(ustr \<times> int) list"
  rs_rows :: "bytes option list list"

text \<open>
  The libraries and the database the handlers call into are parameters of the model:
  \<^item> \<open>odbc_connect cs\<close>: \<^verbatim>\<open>pyodbc.connect(cs)\<close>, \<open>None\<close> when it succeeds and
    \<open>Some e\<close> when it raises an exception with text \<open>e\<close>;
  \<^item> \<open>odbc_execute q\<close>: running the query text \<open>q\<close>, the exception text or the result set;
  \<^item> \<open>null_to_converter\<close>: whether the driver calls a registered output converter for
    a NULL cell, with \<^verbatim>\<open>None\<close>, as the documentation of \<^verbatim>\<open>add_output_converter\<close>
    says, or yields \<^verbatim>\<open>None\<close> for the cell itself;
  \<^item> \<open>odbc_decode t v\<close>: the value pandas holds for a cell of ODBC type \<open>t\<close> with raw
    value \<open>v\<close> when no output converter is registered for \<open>t\<close> (a numeric NULL may
    appear as NaN);
  \<^item> \<open>py_str b\<close>: \<^verbatim>\<open>str(b)\<close> of a bytes object;
  \<^item> \<open>unicode_lower s\<close>: \<^verbatim>\<open>s.lower()\<close> for a string with a character above code point
    255 (below, \<open>lower\<close> is defined here);
  \<^item> \<open>fmt_value\<close>: the text \<^verbatim>\<open>to_csv\<close> writes for a non-missing, non-string value;
  \<^item> \<open>os_linesep\<close>: \<^verbatim>\<open>os.linesep\<close>, the line terminator \<^verbatim>\<open>to_csv\<close> uses;
  \<^item> \<open>excel_writer engine sheet index df\<close>: the bytes \<^verbatim>\<open>pd.ExcelWriter\<close> with
    \<^verbatim>\<open>df.to_excel\<close> leaves in the buffer, or the exception text.
\<close>

record 'a env =
  odbc_connect :: "ustr \<Rightarrow> ustr option"
  odbc_execute :: "ustr \<Rightarrow> ustr + resultset"
  null_to_converter :: bool
  odbc_decode :: "int \<Rightarrow> bytes option \<Rightarrow> 'a pyval"
  py_str :: "bytes \<Rightarrow> ustr"
  unicode_lower :: "ustr \<Rightarrow> ustr"
  fmt_value :: "'a \<Rightarrow> ustr"
  os_linesep :: ustr
  excel_writer :: "ustr \<Rightarrow> ustr \<Rightarrow> bool \<Rightarrow> 'a frame \<Rightarrow> ustr + bytes"

text \<open>
  The calls a handler makes on the driver and the terminal are recorded in a trace, oldest
  first. A connection is named by the position of its \<open>Connect\<close> event in the trace.
\<close>

datatype event = Connect nat ustr | Execute nat ustr | Close nat | Print ustr

record conn =
  handle :: nat
  converters :: "int \<rightharpoonup> (bytes option \<Rightarrow> ustr)"

text \<open>
  A handler ends by raising an \<^verbatim>\<open>HTTPException\<close> (status code, detail) or by letting
  another exception escape, which the framework answers with status 500.
\<close>

datatype failure = HTTPException nat ustr | Unhandled ustr

datatype 'a pyobj = Str ustr | Records "(ustr \<times> 'a pyval) list list"

datatype 'a response =
  Dict "(ustr \<times> 'a pyobj) list"
| StreamingResponse bytes ustr "(ustr \<times> ustr) list"

section \<open>Python and library operations\<close>

fun is_ch :: "uchar \<Rightarrow> bool" where
  "is_ch (Ch c) = True"
| "is_ch (Wide n) = False"

definition is_latin1 :: "ustr \<Rightarrow> bool" where
  "is_latin1 s = list_all is_ch s"

text \<open>
  \<^verbatim>\<open>str.lower()\<close>: on a string of code points below 256 it maps A-Z and the Latin-1
  capitals to their small letters, character by character.
\<close>

definition lower_char :: "char \<Rightarrow> char" where
  "lower_char c =
     (let n = (of_char c :: nat)
      in if (65 \<le> n \<and> n \<le> 90) \<or> (192 \<le> n \<and> n \<le> 222 \<and> n \<noteq> 215)
         then char_of (n + 32) else c)"

fun lower_uchar :: "uchar \<Rightarrow> uchar" where
  "lower_uchar (Ch c) = Ch (lower_char c)"
| "lower_uchar (Wide n) = Wide n"

definition lower :: "'a env \<Rightarrow> ustr \<Rightarrow> ustr" where
  "lower env s = (if is_latin1 s then map lower_uchar s else unicode_lower env s)"

text \<open>
  \<^verbatim>\<open>str.encode('utf-8')\<close>: one to four bytes per character; it raises
  UnicodeEncodeError on a surrogate (code points 55296 to 57343). \<^verbatim>\<open>str.encode('latin-1')\<close>
  raises it on any character above code point 255. The exception is written by its name:
  no handler shows its text.
\<close>

fun utf8_uchar :: "uchar \<Rightarrow> bytes option" where
  "utf8_uchar (Ch c) =
     (let n = (of_char c :: nat)
      in if n < 128 then Some [c] else Some [char_of (192 + n div 64), char_of (128 + n mod 64)])"
| "utf8_uchar (Wide m) =
     (let n = 256 + m
      in if n < 2048 then Some [char_of (192 + n div 64), char_of (128 + n mod 64)]
         else if n < 55296 \<or> (57343 < n \<and> n < 65536)
           then Some [char_of (224 + n div 4096), char_of (128 + n div 64 mod 64),
                      char_of (128 + n mod 64)]
         else if 65536 \<le> n \<and> n < 1114112
           then Some [char_of (240 + n div 262144), char_of (128 + n div 4096 mod 64),
                      char_of (128 + n div 64 mod 64), char_of (128 + n mod 64)]
         else None)"

definition encode_utf8 :: "ustr \<Rightarrow> ustr + bytes" where
  "encode_utf8 s =
     (if list_all (\<lambda>c. utf8_uchar c \<noteq> None) s
      then Inr (concat (map (\<lambda>c. case utf8_uchar c of Some b \<Rightarrow> b | None \<Rightarrow> []) s))
      else Inl (lit ''UnicodeEncodeError''))"

fun apply_event :: "event \<Rightarrow> nat list \<Rightarrow> nat list" where
  "apply_event (Connect h cs) hs = hs @ [h]"
| "apply_event (Close h) hs = removeAll h hs"
| "apply_event (Execute h q) hs = hs"
| "apply_event (Print m) hs = hs"

definition open_conns :: "event list \<Rightarrow> nat list" where
  "open_conns s = fold apply_event s []"

definition pyodbc_connect :: "'a env \<Rightarrow> ustr \<Rightarrow> event list \<Rightarrow> (ustr + conn) \<times> event list" where
  "pyodbc_connect env cs s =
     (case odbc_connect env cs of
        Some e \<Rightarrow> (Inl e, s)
      | None \<Rightarrow> (Inr \<lparr>handle = length s, converters = Map.empty\<rparr>, s @ [Connect (length s) cs]))"

definition add_output_converter :: "conn \<Rightarrow> int \<Rightarrow> (bytes option \<Rightarrow> ustr) \<Rightarrow> conn" where
  "add_output_converter c t f = c\<lparr>converters := (converters c)(t \<mapsto> f)\<rparr>"

text \<open>
  \<^verbatim>\<open>Connection.close()\<close>: pyodbc raises ProgrammingError on a connection that is
  already closed.
\<close>

definition conn_close :: "conn \<Rightarrow> event list \<Rightarrow> ustr option \<times> event list" where
  "conn_close c s =
     (if handle c \<in> set (open_conns s) then (None, s @ [Close (handle c)])
      else (Some (lit ''Attempt to use a closed connection.''), s))"

text \<open>
  The driver hands the raw bytes of a cell of a type with a registered output converter to
  the converter, and a NULL cell too where \<open>null_to_converter\<close> holds; it decodes every
  other cell itself.
\<close>

definition fetch_row :: "'a env \<Rightarrow> conn \<Rightarrow> (ustr \<times> int) list \<Rightarrow> bytes option list \<Rightarrow> 'a pyval list" where
  "fetch_row env c cols vals =
     map (\<lambda>(col, v). case converters c (snd col) of
                        Some f \<Rightarrow>
                          (case v of
                             Some b \<Rightarrow> PStr (f (Some b))
                           | None \<Rightarrow> if null_to_converter env then PStr (f None) else PNone)
                      | None \<Rightarrow> odbc_decode env (snd col) v)
         (zip cols vals)"

definition fetch_frame :: "'a env \<Rightarrow> conn \<Rightarrow> resultset \<Rightarrow> 'a frame" where
  "fetch_frame env c rs =
     \<lparr>columns = map fst (rs_columns rs), rows = map (fetch_row env c (rs_columns rs)) (rs_rows rs)\<rparr>"

text \<open>\<^verbatim>\<open>pd.read_sql(sql, conn)\<close>.\<close>

definition read_sql :: "'a env \<Rightarrow> ustr \<Rightarrow> conn \<Rightarrow> event list \<Rightarrow> (ustr + 'a frame) \<times> event list" where
  "read_sql env sql c s =
     (case odbc_execute env sql of
        Inl e \<Rightarrow> (Inl e, s @ [Execute (handle c) sql])
      | Inr rs \<Rightarrow> (Inr (fetch_frame env c rs), s @ [Execute (handle c) sql]))"

text \<open>\<^verbatim>\<open>df.replace({np.nan: None})\<close>.\<close>

definition nan_to_none :: "'a pyval \<Rightarrow> 'a pyval" where
  "nan_to_none v = (case v of PNaN \<Rightarrow> PNone | PNone \<Rightarrow> PNone | PStr x \<Rightarrow> PStr x | PVal a \<Rightarrow> PVal a)"

definition replace_nan :: "'a frame \<Rightarrow> 'a frame" where
  "replace_nan df = df\<lparr>rows := map (map nan_to_none) (rows df)\<rparr>"

text \<open>
  \<^verbatim>\<open>df.to_dict(orient="records")\<close>: one dict per row, built as \<^verbatim>\<open>dict(zip(columns, row))\<close>;
  a dict keeps the position of a key's first insertion and the value of its last.
\<close>

definition to_record :: "ustr list \<Rightarrow> 'a pyval list \<Rightarrow> (ustr \<times> 'a pyval) list" where
  "to_record cols row = fold (\<lambda>(k, v). AList.update k v) (zip cols row) []"

definition to_dict_records :: "'a frame \<Rightarrow> (ustr \<times> 'a pyval) list list" where
  "to_dict_records df = map (to_record (columns df)) (rows df)"

text \<open>
  \<^verbatim>\<open>df.to_csv(index=..., sep=...)\<close> with every other option at its default: pandas
  formats the cells (missing values as the empty text) and hands header and rows to
  \<^verbatim>\<open>csv.writer\<close> with minimal quoting, which refuses a delimiter that is not one character.
\<close>

definition cell_text :: "'a env \<Rightarrow> 'a pyval \<Rightarrow> ustr" where
  "cell_text env v = (case v of PNone \<Rightarrow> [] | PNaN \<Rightarrow> [] | PStr x \<Rightarrow> x | PVal a \<Rightarrow> fmt_value env a)"

definition csv_special :: "'a env \<Rightarrow> uchar \<Rightarrow> uchar \<Rightarrow> bool" where
  "csv_special env d c =
     (c = d \<or> c = Ch (CHR 0x22) \<or> c = Ch (CHR 0x0A) \<or> c = Ch (CHR 0x0D)
      \<or> c \<in> set (os_linesep env))"

definition csv_field :: "'a env \<Rightarrow> uchar \<Rightarrow> ustr \<Rightarrow> ustr" where
  "csv_field env d f =
     (if filter (csv_special env d) f = [] then f
      else [Ch (CHR 0x22)] @ concat (map (\<lambda>c. if c = Ch (CHR 0x22) then [c, c] else [c]) f)
           @ [Ch (CHR 0x22)])"

fun join :: "ustr \<Rightarrow> ustr list \<Rightarrow> ustr" where
  "join sep [] = []"
| "join sep [x] = x"
| "join sep (x # y # ys) = x @ sep @ join sep (y # ys)"

definition csv_row :: "'a env \<Rightarrow> uchar \<Rightarrow> ustr list \<Rightarrow> ustr" where
  "csv_row env d flds =
     (if flds = [[]] then [Ch (CHR 0x22), Ch (CHR 0x22)]
      else join [d] (map (csv_field env d) flds))
     @ os_linesep env"

fun digits :: "nat \<Rightarrow> string" where
  "digits n = (if n < 10 then [char_of (48 + n)] else digits (n div 10) @ [char_of (48 + n mod 10)])"

declare digits.simps [simp del]

definition csv_lines :: "'a env \<Rightarrow> bool \<Rightarrow> 'a frame \<Rightarrow> ustr list list" where
  "csv_lines env index df =
     (if index
      then ([] # columns df)
           # map (\<lambda>(i, r). lit (digits i) # map (cell_text env) r) (enumerate 0 (rows df))
      else columns df # map (map (cell_text env)) (rows df))"

definition to_csv :: "'a env \<Rightarrow> bool \<Rightarrow> ustr \<Rightarrow> 'a frame \<Rightarrow> ustr + ustr" where
  "to_csv env index sep df =
     (case sep of
        [d] \<Rightarrow> Inr (concat (map (csv_row env d) (csv_lines env index df)))
      | _ \<Rightarrow> Inl (lit ([CHR 0x22] @ ''delimiter'' @ [CHR 0x22] @ '' must be a 1-character string'')))"

text \<open>
  The constructor \<^verbatim>\<open>StreamingResponse(buffer, media_type=..., headers=...)\<close>: it encodes
  the media type and each header name and value as Latin-1 and raises UnicodeEncodeError
  where one of them has a character above code point 255.
\<close>

definition streaming_response :: "bytes \<Rightarrow> ustr \<Rightarrow> (ustr \<times> ustr) list \<Rightarrow> ustr + 'a response" where
  "streaming_response buffer media_type headers =
     (if is_latin1 media_type \<and> list_all (\<lambda>(k, v). is_latin1 k \<and> is_latin1 v) headers
      then Inr (StreamingResponse buffer media_type headers)
      else Inl (lit ''UnicodeEncodeError''))"

section \<open>The functions of \<^verbatim>\<open>backend/main.py\<close>\<close>

definition handle_special_types :: "('v \<Rightarrow> ustr) \<Rightarrow> 'v option \<Rightarrow> ustr" where
  "handle_special_types str_of v = (case v of Some b \<Rightarrow> str_of b | None \<Rightarrow> [])"

definition get_conn_str :: "DynamicRequest \<Rightarrow> ustr" where
  "get_conn_str req =
     lit ''DRIVER={ODBC Driver 17 for SQL Server};'' @
     lit ''SERVER='' @ SERVER req @ lit '';'' @
     lit ''DATABASE='' @ DATABASE req @ lit '';'' @
     lit ''UID='' @ USERNAME req @ lit '';'' @
     lit ''PWD='' @ PASSWORD req @ lit '';'' @
     lit ''Connection Timeout=10;''"

definition get_db_connection :: "'a env \<Rightarrow> DynamicRequest \<Rightarrow> event list \<Rightarrow> (failure + conn) \<times> event list" where
  "get_db_connection env req s =
     (case pyodbc_connect env (get_conn_str req) s of
        (Inl e, s1) \<Rightarrow> (Inl (HTTPException 400 (lit ''Connection Error: '' @ e)), s1)
      | (Inr c, s1) \<Rightarrow>
          (Inr (add_output_converter
                  (add_output_converter c (- 151) (handle_special_types (py_str env)))
                  (- 152) (handle_special_types (py_str env))), s1))"

definition test_connection :: "'a env \<Rightarrow> DynamicRequest \<Rightarrow> event list \<Rightarrow> (failure + 'a response) \<times> event list" where
  "test_connection env req s =
     (case get_db_connection env req s of
        (Inl err, s1) \<Rightarrow> (Inl err, s1)
      | (Inr c, s1) \<Rightarrow>
          (case conn_close c s1 of
             (Some e, s2) \<Rightarrow> (Inl (Unhandled e), s2)
           | (None, s2) \<Rightarrow>
               (Inr (Dict [(lit ''status'', Str (lit ''success'')),
                           (lit ''message'', Str (lit ''connected''))]), s2)))"

definition execute_sql :: "'a env \<Rightarrow> DynamicRequest \<Rightarrow> event list \<Rightarrow> (failure + 'a response) \<times> event list" where
  "execute_sql env req s =
     (case get_db_connection env req s of
        (Inl err, s1) \<Rightarrow> (Inl err, s1)
      | (Inr c, s1) \<Rightarrow>
          (case read_sql env (lower env (QUERY req)) c s1 of
             (Inr df, s2) \<Rightarrow>
               (Inr (Dict [(lit ''data'', Records (to_dict_records (replace_nan df)))]), s2)
           | (Inl e, s2) \<Rightarrow> (Inl (HTTPException 500 e), s2 @ [Print (lit ''Error: '' @ e)])))"

text \<open>
  Lines 89 to 101 of \<^verbatim>\<open>download_file\<close>: the buffer is filled in the requested format;
  the result is the buffer's content, the media type and the file extension, or \<open>Inl e\<close>
  for an exception raised on the way.
\<close>

definition fill_buffer :: "'a env \<Rightarrow> DynamicRequest \<Rightarrow> 'a frame \<Rightarrow> ustr + (bytes \<times> ustr \<times> ustr)" where
  "fill_buffer env req df =
     (if FORMAT req = lit ''excel''
      then (case excel_writer env (lit ''openpyxl'') (lit ''SQL_Results'') False df of
              Inl e \<Rightarrow> Inl e
            | Inr b \<Rightarrow>
                Inr (b, lit ''application/vnd.openxmlformats-officedocument.spreadsheetml.sheet'',
                     lit ''xlsx''))
      else (case to_csv env False (DELIMITER req) df of
              Inl e \<Rightarrow> Inl e
            | Inr text_data \<Rightarrow>
                (case encode_utf8 text_data of
                   Inl e \<Rightarrow> Inl e
                 | Inr b \<Rightarrow>
                     Inr (b, if FORMAT req = lit ''csv'' then lit ''text/csv'' else lit ''text/plain'',
                          FORMAT req))))"

text \<open>
  Lines 89 to 108: the filled buffer is wrapped in a \<^verbatim>\<open>StreamingResponse\<close> whose
  Content-Disposition header names the file after the extension.
\<close>

definition export_response :: "'a env \<Rightarrow> DynamicRequest \<Rightarrow> 'a frame \<Rightarrow> ustr + 'a response" where
  "export_response env req df =
     (case fill_buffer env req df of
        Inl e \<Rightarrow> Inl e
      | Inr (buffer, media_type, ext) \<Rightarrow>
          streaming_response buffer media_type
            [(lit ''Content-Disposition'', lit ''attachment; filename=query_export.'' @ ext)])"

text \<open>The \<^verbatim>\<open>try\<close> block of \<^verbatim>\<open>download_file\<close>; \<open>Inl e\<close> is an exception raised inside it.\<close>

definition download_try :: "'a env \<Rightarrow> DynamicRequest \<Rightarrow> conn \<Rightarrow> event list \<Rightarrow> (ustr + 'a response) \<times> event list" where
  "download_try env req c s =
     (case read_sql env (QUERY req) c s of
        (Inl e, s1) \<Rightarrow> (Inl e, s1)
      | (Inr df, s1) \<Rightarrow>
          (case conn_close c s1 of
             (Some e, s2) \<Rightarrow> (Inl e, s2)
           | (None, s2) \<Rightarrow> (export_response env req df, s2)))"

definition download_file :: "'a env \<Rightarrow> DynamicRequest \<Rightarrow> event list \<Rightarrow> (failure + 'a response) \<times> event list" where
  "download_file env req s =
     (case get_db_connection env req s of
        (Inl err, s1) \<Rightarrow> (Inl err, s1)
      | (Inr c, s1) \<Rightarrow>
          (case download_try env req c s1 of
             (Inr resp, s2) \<Rightarrow> (Inr resp, s2)
           | (Inl e, s2) \<Rightarrow>
               (case conn_close c s2 of
                  (Some e', s3) \<Rightarrow> (Inl (Unhandled e'), s3)
                | (None, s3) \<Rightarrow> (Inl (HTTPException 400 (lit ''Export Error: '' @ e)), s3))))"

text \<open>
  The connection \<^verbatim>\<open>get_db_connection\<close> returns when \<^verbatim>\<open>pyodbc.connect\<close> succeeded with
  handle \<open>h\<close>, the frame \<^verbatim>\<open>pd.read_sql\<close> builds over such a connection, and the text
  \<^verbatim>\<open>to_csv(index=False, sep=d)\<close> makes of it.
\<close>

definition opened_conn :: "'a env \<Rightarrow> nat \<Rightarrow> conn" where
  "opened_conn env h =
     add_output_converter
       (add_output_converter \<lparr>handle = h, converters = Map.empty\<rparr> (- 151) (handle_special_types (py_str env)))
       (- 152) (handle_special_types (py_str env))"

definition result_frame :: "'a env \<Rightarrow> resultset \<Rightarrow> 'a frame" where
  "result_frame env rs = fetch_frame env (opened_conn env 0) rs"

definition csv_text :: "'a env \<Rightarrow> uchar \<Rightarrow> 'a frame \<Rightarrow> ustr" where
  "csv_text env d df =
     concat (map (csv_row env d) (columns df # map (map (cell_text env)) (rows df)))"

section \<open>An example database\<close>

text \<open>
  A server that accepts one login and answers four query texts; table \<open>t\<close> has an integer
  column, a text column and a geometry column (ODBC type -151), table \<open>big\<close> has 1048576
  rows, one more than a worksheet holds below its header row.
\<close>

definition demo_rs :: resultset where
  "demo_rs = \<lparr>rs_columns = [(lit ''id'', 4), (lit ''note'', 12), (lit ''shape'', - 151)],
              rs_rows = [[Some ''1'', None, Some ''P''], [None, Some ''a;b'', None]]\<rparr>"

definition big_rs :: resultset where
  "big_rs = \<lparr>rs_columns = [(lit ''n'', 4)], rs_rows = replicate 1048576 [Some ''1'']\<rparr>"

definition demo_env :: "nat env" where
  "demo_env = \<lparr>
     odbc_connect = (\<lambda>cs.
       if cs = lit ''DRIVER={ODBC Driver 17 for SQL Server};SERVER=localhost;DATABASE=shop;UID=sa;PWD=pw;Connection Timeout=10;''
       then None else Some (lit ''Login failed'')),
     odbc_execute = (\<lambda>q.
       if q = lit ''select id, note, shape from t'' then Inr demo_rs
       else if q = lit ''select n from big'' then Inr big_rs
       else if q = lit ''SELECT 'A' AS Letter''
         then Inr \<lparr>rs_columns = [(lit ''Letter'', 12)], rs_rows = [[Some ''A'']]\<rparr>
       else if q = lit ''select 'a' as letter''
         then Inr \<lparr>rs_columns = [(lit ''letter'', 12)], rs_rows = [[Some ''a'']]\<rparr>
       else Inl (lit ''Invalid object name'')),
     null_to_converter = True,
     odbc_decode = (\<lambda>t v. case v of
         None \<Rightarrow> (if t = 4 then PNaN else PNone)
       | Some b \<Rightarrow> (if t = 4 then PVal (length b) else PStr (lit b))),
     py_str = (\<lambda>b. lit (''b'' @ [CHR 0x27] @ b @ [CHR 0x27])),
     unicode_lower = (\<lambda>s. s),
     fmt_value = (\<lambda>n. lit (digits n)),
     os_linesep = [Ch (CHR 0x0A)],
     excel_writer = (\<lambda>engine sheet index df.
       if length (rows df) < 1048576 then Inr ''PK'' else Inl (lit ''This sheet is too large!''))\<rparr>"

definition demo_req :: DynamicRequest where
  "demo_req = \<lparr>SERVER = lit ''localhost'', DATABASE = lit ''shop'', USERNAME = lit ''sa'',
               PASSWORD = lit ''pw'', QUERY = lit ''select id, note, shape from t'',
               DELIMITER = lit '';'', FORMAT = lit ''csv''\<rparr>"

text \<open>
  The same server behind a driver that yields \<^verbatim>\<open>None\<close> for a NULL cell without calling
  the output converter.
\<close>

definition strict_env :: "nat env" where
  "strict_env = demo_env\<lparr>null_to_converter := False\<rparr>"

section \<open>Strings\<close>

lemma is_latin1_lit: "is_latin1 (lit s)"
  by (induction s) (simp_all add: is_latin1_def)

lemma is_latin1_append: "is_latin1 (a @ b) = (is_latin1 a \<and> is_latin1 b)"
  by (simp add: is_latin1_def)

lemma lower_lit: "lower env (lit s) = lit (map lower_char s)"
  by (simp add: lower_def is_latin1_lit)

lemma encode_utf8_ascii:
  "list_all (\<lambda>c. (of_char c :: nat) < 128) s \<Longrightarrow> encode_utf8 (lit s) = Inr s"
proof -
  assume a: "list_all (\<lambda>c. (of_char c :: nat) < 128) s"
  then have 1: "list_all (\<lambda>c. utf8_uchar c \<noteq> None) (lit s)"
    by (induction s) (simp_all add: Let_def)
  from a have "concat (map (\<lambda>c. case utf8_uchar c of Some b \<Rightarrow> b | None \<Rightarrow> []) (lit s)) = s"
    by (induction s) simp_all
  with 1 show ?thesis
    by (simp add: encode_utf8_def)
qed

lemma streaming_response_ok:
  "is_latin1 m \<Longrightarrow> is_latin1 k \<Longrightarrow> is_latin1 v \<Longrightarrow>
   streaming_response b m [(k, v)] = Inr (StreamingResponse b m [(k, v)])"
  by (simp add: streaming_response_def)

lemma streaming_response_refused:
  "\<not> is_latin1 v \<Longrightarrow> streaming_response b m [(k, v)] = Inl (lit ''UnicodeEncodeError'')"
  by (simp add: streaming_response_def)

section \<open>Connections and the trace\<close>

lemma open_conns_snoc: "open_conns (s @ [e]) = apply_event e (open_conns s)"
  by (simp add: open_conns_def)

lemma handle_opened_conn: "handle (opened_conn env h) = h"
  by (simp add: opened_conn_def add_output_converter_def)

lemma converters_opened_conn:
  "converters (opened_conn env h) t =
     (if t = - 152 \<or> t = - 151 then Some (handle_special_types (py_str env)) else None)"
  by (simp add: opened_conn_def add_output_converter_def)

lemma fetch_frame_opened_conn: "fetch_frame env (opened_conn env h) rs = result_frame env rs"
  by (simp add: result_frame_def fetch_frame_def fetch_row_def converters_opened_conn)

lemma get_db_connection_fail:
  "odbc_connect env (get_conn_str req) = Some e \<Longrightarrow>
   get_db_connection env req s = (Inl (HTTPException 400 (lit ''Connection Error: '' @ e)), s)"
  by (simp add: get_db_connection_def pyodbc_connect_def)

lemma get_db_connection_ok:
  "odbc_connect env (get_conn_str req) = None \<Longrightarrow>
   get_db_connection env req s =
     (Inr (opened_conn env (length s)), s @ [Connect (length s) (get_conn_str req)])"
  by (simp add: get_db_connection_def pyodbc_connect_def opened_conn_def)

lemma conn_close_open:
  "conn_close (opened_conn env h) (s @ [Connect h cs]) = (None, s @ [Connect h cs, Close h])"
  by (simp add: conn_close_def handle_opened_conn open_conns_snoc)

lemma conn_close_after_execute:
  "conn_close (opened_conn env h) (s @ [Connect h cs, Execute h' q]) =
     (None, s @ [Connect h cs, Execute h' q, Close h])"
proof -
  have "open_conns (s @ [Connect h cs, Execute h' q]) = open_conns s @ [h]"
    using open_conns_snoc [of "s @ [Connect h cs]" "Execute h' q"]
      open_conns_snoc [of s "Connect h cs"]
    by simp
  then show ?thesis
    by (simp add: conn_close_def handle_opened_conn)
qed

lemma conn_close_closed:
  "conn_close (opened_conn env h) (s @ [Close h]) =
     (Some (lit ''Attempt to use a closed connection.''), s @ [Close h])"
  by (simp add: conn_close_def handle_opened_conn open_conns_snoc)

section \<open>What each handler returns\<close>

lemma test_connection_ok:
  "odbc_connect env (get_conn_str req) = None \<Longrightarrow>
   test_connection env req s =
     (Inr (Dict [(lit ''status'', Str (lit ''success'')), (lit ''message'', Str (lit ''connected''))]),
      s @ [Connect (length s) (get_conn_str req), Close (length s)])"
  by (simp add: test_connection_def get_db_connection_ok conn_close_open)

lemma execute_sql_ok:
  "odbc_connect env (get_conn_str req) = None \<Longrightarrow>
   odbc_execute env (lower env (QUERY req)) = Inr rs \<Longrightarrow>
   execute_sql env req s =
     (Inr (Dict [(lit ''data'', Records (to_dict_records (replace_nan (result_frame env rs))))]),
      s @ [Connect (length s) (get_conn_str req), Execute (length s) (lower env (QUERY req))])"
  by (simp add: execute_sql_def get_db_connection_ok read_sql_def handle_opened_conn
      fetch_frame_opened_conn)

lemma execute_sql_query_fail:
  "odbc_connect env (get_conn_str req) = None \<Longrightarrow>
   odbc_execute env (lower env (QUERY req)) = Inl e \<Longrightarrow>
   execute_sql env req s =
     (Inl (HTTPException 500 e),
      s @ [Connect (length s) (get_conn_str req), Execute (length s) (lower env (QUERY req)),
           Print (lit ''Error: '' @ e)])"
  by (simp add: execute_sql_def get_db_connection_ok read_sql_def handle_opened_conn)

lemma download_try_query_fail:
  "odbc_execute env (QUERY req) = Inl e \<Longrightarrow>
   download_try env req (opened_conn env h) (s @ [Connect h cs]) =
     (Inl e, s @ [Connect h cs, Execute h (QUERY req)])"
  by (simp add: download_try_def read_sql_def handle_opened_conn)

lemma download_try_fetched:
  "odbc_execute env (QUERY req) = Inr rs \<Longrightarrow>
   download_try env req (opened_conn env h) (s @ [Connect h cs]) =
     (export_response env req (result_frame env rs),
      s @ [Connect h cs, Execute h (QUERY req), Close h])"
  using conn_close_after_execute [of env h s cs h "QUERY req"]
  by (simp add: download_try_def read_sql_def handle_opened_conn fetch_frame_opened_conn)

lemma download_file_query_fail:
  "odbc_connect env (get_conn_str req) = None \<Longrightarrow>
   odbc_execute env (QUERY req) = Inl e \<Longrightarrow>
   download_file env req s =
     (Inl (HTTPException 400 (lit ''Export Error: '' @ e)),
      s @ [Connect (length s) (get_conn_str req), Execute (length s) (QUERY req), Close (length s)])"
  using conn_close_after_execute [of env "length s" s "get_conn_str req" "length s" "QUERY req"]
  by (simp add: download_file_def get_db_connection_ok download_try_query_fail)

lemma download_file_exported:
  "odbc_connect env (get_conn_str req) = None \<Longrightarrow>
   odbc_execute env (QUERY req) = Inr rs \<Longrightarrow>
   export_response env req (result_frame env rs) = Inr resp \<Longrightarrow>
   download_file env req s =
     (Inr resp,
      s @ [Connect (length s) (get_conn_str req), Execute (length s) (QUERY req), Close (length s)])"
  by (simp add: download_file_def get_db_connection_ok download_try_fetched)

lemma download_file_export_fail:
  "odbc_connect env (get_conn_str req) = None \<Longrightarrow>
   odbc_execute env (QUERY req) = Inr rs \<Longrightarrow>
   export_response env req (result_frame env rs) = Inl e \<Longrightarrow>
   download_file env req s =
     (Inl (Unhandled (lit ''Attempt to use a closed connection.'')),
      s @ [Connect (length s) (get_conn_str req), Execute (length s) (QUERY req), Close (length s)])"
  using conn_close_closed [of env "length s"
      "s @ [Connect (length s) (get_conn_str req), Execute (length s) (QUERY req)]"]
  by (simp add: download_file_def get_db_connection_ok download_try_fetched)

lemma download_file_fetched:
  "odbc_connect env (get_conn_str req) = None \<Longrightarrow>
   odbc_execute env (QUERY req) = Inr rs \<Longrightarrow>
   fst (download_file env req s) =
     (case export_response env req (result_frame env rs) of
        Inl e \<Rightarrow> Inl (Unhandled (lit ''Attempt to use a closed connection.''))
      | Inr resp \<Rightarrow> Inr resp)"
  by (cases "export_response env req (result_frame env rs)")
    (simp_all add: download_file_exported download_file_export_fail)

section \<open>The export step\<close>

lemma to_csv_one_char: "to_csv env False [d] df = Inr (csv_text env d df)"
  by (simp add: to_csv_def csv_text_def csv_lines_def)

lemma to_csv_refused:
  "length sep \<noteq> 1 \<Longrightarrow>
   to_csv env index sep df =
     Inl (lit ([CHR 0x22] @ ''delimiter'' @ [CHR 0x22] @ '' must be a 1-character string''))"
  by (cases sep; cases "tl sep") (auto simp: to_csv_def)

lemma export_response_excel_ok:
  assumes "FORMAT req = lit ''excel''"
      and "excel_writer env (lit ''openpyxl'') (lit ''SQL_Results'') False df = Inr wb"
  shows "export_response env req df =
     Inr (StreamingResponse wb
            (lit ''application/vnd.openxmlformats-officedocument.spreadsheetml.sheet'')
            [(lit ''Content-Disposition'', lit ''attachment; filename=query_export.xlsx'')])"
proof -
  have f: "fill_buffer env req df =
      Inr (wb, lit ''application/vnd.openxmlformats-officedocument.spreadsheetml.sheet'', lit ''xlsx'')"
    using assms by (simp add: fill_buffer_def)
  have "streaming_response wb
        (lit ''application/vnd.openxmlformats-officedocument.spreadsheetml.sheet'')
        [(lit ''Content-Disposition'', lit ''attachment; filename=query_export.'' @ lit ''xlsx'')] =
      Inr (StreamingResponse wb
        (lit ''application/vnd.openxmlformats-officedocument.spreadsheetml.sheet'')
        [(lit ''Content-Disposition'', lit ''attachment; filename=query_export.'' @ lit ''xlsx'')])"
    by (rule streaming_response_ok) (simp_all only: is_latin1_lit is_latin1_append)
  then show ?thesis
    unfolding export_response_def f by simp
qed

lemma export_response_excel_fail:
  "FORMAT req = lit ''excel'' \<Longrightarrow>
   excel_writer env (lit ''openpyxl'') (lit ''SQL_Results'') False df = Inl e \<Longrightarrow>
   export_response env req df = Inl e"
  by (simp add: export_response_def fill_buffer_def)

lemma export_response_csv_ok:
  assumes "FORMAT req \<noteq> lit ''excel''" and "DELIMITER req = [d]"
      and "encode_utf8 (csv_text env d df) = Inr body" and "is_latin1 (FORMAT req)"
  shows "export_response env req df =
     Inr (StreamingResponse body
            (if FORMAT req = lit ''csv'' then lit ''text/csv'' else lit ''text/plain'')
            [(lit ''Content-Disposition'', lit ''attachment; filename=query_export.'' @ FORMAT req)])"
proof -
  let ?media = "if FORMAT req = lit ''csv'' then lit ''text/csv'' else lit ''text/plain''"
  have f: "fill_buffer env req df = Inr (body, ?media, FORMAT req)"
    using assms(1,2,3) by (simp add: fill_buffer_def to_csv_one_char)
  have m: "is_latin1 ?media"
    by (simp only: is_latin1_lit if_split) simp
  have "streaming_response body ?media
        [(lit ''Content-Disposition'', lit ''attachment; filename=query_export.'' @ FORMAT req)] =
      Inr (StreamingResponse body ?media
        [(lit ''Content-Disposition'', lit ''attachment; filename=query_export.'' @ FORMAT req)])"
    using m by (rule streaming_response_ok) (simp_all only: is_latin1_lit is_latin1_append assms(4))
  then show ?thesis
    unfolding export_response_def f by simp
qed

lemma fill_buffer_csv_only:
  assumes "FORMAT req \<noteq> lit ''excel''" and "fill_buffer env req df = Inr (buffer, media, ext)"
  shows "\<exists>d. DELIMITER req = [d] \<and> encode_utf8 (csv_text env d df) = Inr buffer
     \<and> media = (if FORMAT req = lit ''csv'' then lit ''text/csv'' else lit ''text/plain'')
     \<and> ext = FORMAT req"
proof (cases "to_csv env False (DELIMITER req) df")
  case (Inl e)
  with assms show ?thesis
    by (simp add: fill_buffer_def)
next
  case t: (Inr text_data)
  have "length (DELIMITER req) = 1"
    using t to_csv_refused [of "DELIMITER req" env False df] by (cases "length (DELIMITER req) = 1") simp_all
  then obtain d where d: "DELIMITER req = [d]"
    by (cases "DELIMITER req") simp_all
  with t have x: "text_data = csv_text env d df"
    by (simp add: to_csv_one_char)
  show ?thesis
  proof (cases "encode_utf8 text_data")
    case (Inl e)
    with assms t show ?thesis
      by (simp add: fill_buffer_def)
  next
    case (Inr b)
    with assms t have "b = buffer"
      and "media = (if FORMAT req = lit ''csv'' then lit ''text/csv'' else lit ''text/plain'')"
      and "ext = FORMAT req"
      by (auto simp: fill_buffer_def)
    with d x Inr show ?thesis
      by simp
  qed
qed

lemma export_response_csv_only:
  assumes "FORMAT req \<noteq> lit ''excel''" and "export_response env req df = Inr resp"
  shows "\<exists>d body. DELIMITER req = [d] \<and> encode_utf8 (csv_text env d df) = Inr body
     \<and> is_latin1 (FORMAT req)
     \<and> resp = StreamingResponse body
         (if FORMAT req = lit ''csv'' then lit ''text/csv'' else lit ''text/plain'')
         [(lit ''Content-Disposition'', lit ''attachment; filename=query_export.'' @ FORMAT req)]"
proof (cases "fill_buffer env req df")
  case (Inl e)
  with assms(2) show ?thesis
    by (simp add: export_response_def)
next
  case (Inr triple)
  obtain buffer media ext where tr: "triple = (buffer, media, ext)"
    by (cases triple)
  from fill_buffer_csv_only [OF assms(1) Inr [unfolded tr]]
  obtain d where d: "DELIMITER req = [d]" and u: "encode_utf8 (csv_text env d df) = Inr buffer"
    and m: "media = (if FORMAT req = lit ''csv'' then lit ''text/csv'' else lit ''text/plain'')"
    and e: "ext = FORMAT req"
    by blast
  have r: "streaming_response buffer media
        [(lit ''Content-Disposition'', lit ''attachment; filename=query_export.'' @ FORMAT req)] = Inr resp"
    using assms(2) unfolding export_response_def Inr tr e by simp
  have l: "is_latin1 (FORMAT req)"
  proof (rule ccontr)
    assume "\<not> is_latin1 (FORMAT req)"
    then have "\<not> is_latin1 (lit ''attachment; filename=query_export.'' @ FORMAT req)"
      by (simp only: is_latin1_append) simp
    note x = streaming_response_refused [OF this, of buffer media "lit ''Content-Disposition''"]
    from r [unfolded x] show False
      by simp
  qed
  have "resp = StreamingResponse buffer media
        [(lit ''Content-Disposition'', lit ''attachment; filename=query_export.'' @ FORMAT req)]"
    using r by (simp add: streaming_response_def split: if_splits)
  with d u l m show ?thesis
    by blast
qed

lemma export_response_bad_delimiter:
  "FORMAT req \<noteq> lit ''excel'' \<Longrightarrow> length (DELIMITER req) \<noteq> 1 \<Longrightarrow>
   isl (export_response env req df)"
  using export_response_csv_only [of req env df]
  by (cases "export_response env req df") auto

lemma export_response_bad_format:
  "FORMAT req \<noteq> lit ''excel'' \<Longrightarrow> \<not> is_latin1 (FORMAT req) \<Longrightarrow>
   isl (export_response env req df)"
  using export_response_csv_only [of req env df]
  by (cases "export_response env req df") auto

lemma download_file_export_fails:
  "odbc_connect env (get_conn_str req) = None \<Longrightarrow>
   odbc_execute env (QUERY req) = Inr rs \<Longrightarrow>
   isl (export_response env req (result_frame env rs)) \<Longrightarrow>
   fst (download_file env req s) = Inl (Unhandled (lit ''Attempt to use a closed connection.''))"
  by (cases "export_response env req (result_frame env rs)")
    (simp_all add: download_file_export_fail)

lemma test_connection_connect_fail:
  "odbc_connect env (get_conn_str req) = Some e \<Longrightarrow>
   test_connection env req s = (Inl (HTTPException 400 (lit ''Connection Error: '' @ e)), s)"
  by (simp add: test_connection_def get_db_connection_fail)

lemma execute_sql_connect_fail:
  "odbc_connect env (get_conn_str req) = Some e \<Longrightarrow>
   execute_sql env req s = (Inl (HTTPException 400 (lit ''Connection Error: '' @ e)), s)"
  by (simp add: execute_sql_def get_db_connection_fail)

lemma download_file_connect_fail:
  "odbc_connect env (get_conn_str req) = Some e \<Longrightarrow>
   download_file env req s = (Inl (HTTPException 400 (lit ''Connection Error: '' @ e)), s)"
  by (simp add: download_file_def get_db_connection_fail)

section \<open>The example database\<close>

lemma demo_connects: "odbc_connect demo_env (get_conn_str demo_req) = None"
  by (simp add: demo_env_def demo_req_def get_conn_str_def)

lemma lower_example:
  "lower env (lit ''SELECT 'A' AS Letter'') = lit ''select 'a' as letter''"
proof -
  have "map lower_char ''SELECT 'A' AS Letter'' = ''select 'a' as letter''"
    by code_simp
  then show ?thesis
    by (simp only: lower_lit)
qed

lemma lower_demo_query: "lower env (QUERY demo_req) = QUERY demo_req"
proof -
  have "map lower_char ''select id, note, shape from t'' = ''select id, note, shape from t''"
    by code_simp
  then have "lower env (lit ''select id, note, shape from t'') = lit ''select id, note, shape from t''"
    by (simp only: lower_lit)
  then show ?thesis
    by (simp add: demo_req_def)
qed

lemma demo_query: "odbc_execute demo_env (QUERY demo_req) = Inr demo_rs"
  by (simp add: demo_env_def demo_req_def)

lemma demo_lowered_query: "odbc_execute demo_env (lower demo_env (QUERY demo_req)) = Inr demo_rs"
  by (simp add: lower_demo_query demo_query)

lemma demo_frame: "result_frame demo_env demo_rs =
   \<lparr>columns = [lit ''id'', lit ''note'', lit ''shape''],
    rows = [[PVal 1, PNone, PStr (lit (''b'P'' @ [CHR 0x27]))],
            [PNaN, PStr (lit ''a;b''), PStr []]]\<rparr>"
  by (simp add: result_frame_def fetch_frame_def fetch_row_def demo_rs_def demo_env_def
      converters_opened_conn handle_special_types_def)

lemma demo_env_csv:
  "os_linesep demo_env = [Ch (CHR 0x0A)]" "fmt_value demo_env = (\<lambda>n. lit (digits n))"
  by (simp_all add: demo_env_def)

lemma digits_1: "digits (Suc 0) = ''1''"
  by code_simp

lemma demo_csv_text:
  "csv_text demo_env (Ch (CHR '';'')) (result_frame demo_env demo_rs) =
     lit (''id;note;shape\<newline>1;;b'P'\<newline>;'' @ [CHR 0x22] @ ''a;b'' @ [CHR 0x22] @ '';\<newline>'')"
  by (simp add: demo_frame csv_text_def cell_text_def csv_row_def csv_field_def csv_special_def
      demo_env_csv digits_1)

lemma demo_csv_body:
  "encode_utf8 (csv_text demo_env (Ch (CHR '';'')) (result_frame demo_env demo_rs)) =
     Inr (''id;note;shape\<newline>1;;b'P'\<newline>;'' @ [CHR 0x22] @ ''a;b'' @ [CHR 0x22] @ '';\<newline>'')"
  unfolding demo_csv_text by (rule encode_utf8_ascii) simp

lemma demo_rs_shape:
  "length (rs_rows demo_rs) = 2" "length (rs_columns demo_rs) = 3"
  "rs_rows demo_rs ! Suc 0 = [None, Some ''a;b'', None]"
  "rs_columns demo_rs ! 0 = (lit ''id'', 4)"
  "rs_columns demo_rs ! 2 = (lit ''shape'', - 151)"
  "distinct (map fst (rs_columns demo_rs))"
  by (simp_all add: demo_rs_def)

lemma demo_frame_row_1:
  "rows (result_frame demo_env demo_rs) ! Suc 0 = [PNaN, PStr (lit ''a;b''), PStr []]"
  by (simp add: demo_frame)

section \<open>Frames, records and delimited text\<close>

lemma nan_to_none_if: "nan_to_none v = (if v = PNaN then PNone else v)"
  by (cases v) (simp_all add: nan_to_none_def)

lemma nan_to_none_not_nan: "nan_to_none v \<noteq> PNaN"
  by (cases v) (simp_all add: nan_to_none_def)

lemma map_of_fold_update:
  "map_of (fold (\<lambda>(k, v). AList.update k v) xs al) k =
     (case map_of (rev xs) k of Some v \<Rightarrow> Some v | None \<Rightarrow> map_of al k)"
proof (induction xs arbitrary: al)
  case Nil
  then show ?case by simp
next
  case (Cons x xs)
  obtain k' v' where x: "x = (k', v')" by (cases x)
  show ?case
    by (simp add: Cons.IH x update_conv' map_add_def split: option.splits)
qed

lemma values_fold_update:
  "snd ` set (fold (\<lambda>(k, v). AList.update k v) xs al) \<subseteq> snd ` set al \<union> snd ` set xs"
proof (induction xs arbitrary: al)
  case Nil
  then show ?case by simp
next
  case (Cons x xs)
  obtain k' v' where x: "x = (k', v')" by (cases x)
  have "snd ` set (AList.update k' v' al) \<subseteq> insert v' (snd ` set al)"
    by (induction al) auto
  with Cons.IH [of "AList.update k' v' al"] show ?case
    by (auto simp: x)
qed

lemma to_record_values: "(k, v) \<in> set (to_record cols row) \<Longrightarrow> v \<in> set row"
proof -
  assume "(k, v) \<in> set (to_record cols row)"
  then have "v \<in> snd ` set (to_record cols row)"
    by force
  then have "v \<in> snd ` set (zip cols row)"
    using values_fold_update [of "zip cols row" "[]"] by (auto simp: to_record_def)
  then show ?thesis
    by (auto dest: set_zip_rightD)
qed

lemma to_record_lookup:
  assumes "distinct cols" and "length row = length cols" and "j < length cols"
  shows "map_of (to_record cols row) (cols ! j) = Some (row ! j)"
proof -
  have d: "distinct (map fst (rev (zip cols row)))"
    using assms(1,2) by (simp add: rev_map [symmetric])
  have "(cols ! j, row ! j) \<in> set (rev (zip cols row))"
    using assms(2,3) by (auto simp: set_zip)
  then have "map_of (rev (zip cols row)) (cols ! j) = Some (row ! j)"
    using d by simp
  then show ?thesis
    by (simp add: to_record_def map_of_fold_update)
qed

lemma columns_result_frame: "columns (result_frame env rs) = map fst (rs_columns rs)"
  by (simp add: result_frame_def fetch_frame_def)

lemma length_rows_result_frame: "length (rows (result_frame env rs)) = length (rs_rows rs)"
  by (simp add: result_frame_def fetch_frame_def)

lemma length_row_result_frame:
  "i < length (rs_rows rs) \<Longrightarrow>
   length (rows (result_frame env rs) ! i) = min (length (rs_columns rs)) (length (rs_rows rs ! i))"
  by (simp add: result_frame_def fetch_frame_def fetch_row_def)

lemma result_frame_cell:
  assumes "i < length (rs_rows rs)" and "j < length (rs_columns rs)"
      and "length (rs_rows rs ! i) = length (rs_columns rs)"
  shows "rows (result_frame env rs) ! i ! j =
     (if snd (rs_columns rs ! j) = - 152 \<or> snd (rs_columns rs ! j) = - 151
      then (case rs_rows rs ! i ! j of
              Some b \<Rightarrow> PStr (py_str env b)
            | None \<Rightarrow> if null_to_converter env then PStr [] else PNone)
      else odbc_decode env (snd (rs_columns rs ! j)) (rs_rows rs ! i ! j))"
  using assms
  by (simp add: result_frame_def fetch_frame_def fetch_row_def converters_opened_conn
      handle_special_types_def split: option.splits)

lemma records_cell:
  assumes "i < length (rows df)" and "j < length (columns df)"
      and "length (rows df ! i) = length (columns df)" and "distinct (columns df)"
  shows "map_of (to_dict_records (replace_nan df) ! i) (columns df ! j) =
     Some (nan_to_none (rows df ! i ! j))"
proof -
  have "to_dict_records (replace_nan df) ! i = to_record (columns df) (map nan_to_none (rows df ! i))"
    using assms(1) by (simp add: to_dict_records_def replace_nan_def)
  then show ?thesis
    using to_record_lookup [of "columns df" "map nan_to_none (rows df ! i)" j] assms
    by simp
qed

lemma records_no_nan:
  assumes "r \<in> set (to_dict_records (replace_nan df))" and "(k, v) \<in> set r"
  shows "v \<noteq> PNaN"
proof -
  from assms(1) obtain row where "row \<in> set (rows df)"
    and "r = to_record (columns df) (map nan_to_none row)"
    by (auto simp: to_dict_records_def replace_nan_def)
  with assms(2) have "v \<in> set (map nan_to_none row)"
    using to_record_values by fastforce
  then show ?thesis
    using nan_to_none_not_nan by auto
qed

lemma csv_field_plain: "filter (csv_special env d) f = [] \<Longrightarrow> csv_field env d f = f"
  by (simp add: csv_field_def)

lemma csv_row_plain:
  assumes "flds \<noteq> [[]]" and "\<forall>f \<in> set flds. filter (csv_special env d) f = []"
  shows "csv_row env d flds = join [d] flds @ os_linesep env"
proof -
  have "map (csv_field env d) flds = flds"
    using assms(2) by (simp add: csv_field_plain map_idI)
  then show ?thesis
    using assms(1) by (simp add: csv_row_def)
qed

section \<open>Responses do not depend on the trace\<close>

lemma test_connection_response_stateless:
  "fst (test_connection env req s) = fst (test_connection env req s')"
  by (cases "odbc_connect env (get_conn_str req)")
    (simp_all add: test_connection_ok test_connection_connect_fail)

lemma execute_sql_response_stateless:
  "fst (execute_sql env req s) = fst (execute_sql env req s')"
proof (cases "odbc_connect env (get_conn_str req)")
  case None
  then show ?thesis
    by (cases "odbc_execute env (lower env (QUERY req))")
      (simp_all add: execute_sql_ok execute_sql_query_fail)
next
  case (Some e)
  then show ?thesis
    by (simp add: execute_sql_connect_fail)
qed

lemma download_file_response_stateless:
  "fst (download_file env req s) = fst (download_file env req s')"
proof (cases "odbc_connect env (get_conn_str req)")
  case None
  show ?thesis
  proof (cases "odbc_execute env (QUERY req)")
    case (Inl e)
    with None show ?thesis
      by (simp add: download_file_query_fail)
  next
    case (Inr rs)
    with None show ?thesis
      by (simp add: download_file_fetched)
  qed
next
  case (Some e)
  then show ?thesis
    by (simp add: download_file_connect_fail)
qed

section \<open>The claims\<close>

text \<open>
  C1 (fails on \<^verbatim>\<open>execute_sql\<close>). The claim: both query endpoints pass the QUERY field to the
  driver unmodified. \<^verbatim>\<open>download_file\<close> does; \<^verbatim>\<open>execute_sql\<close> passes \<^verbatim>\<open>req.QUERY.lower()\<close>.
  On the example database the query \<^verbatim>\<open>SELECT 'A' AS Letter\<close> reaches the driver from
  \<^verbatim>\<open>execute_sql\<close> as \<^verbatim>\<open>select 'a' as letter\<close>, and the preview shows the lowered literal
  under the lowered column name.
\<close>

theorem C1_execute_sql_lowers_query:
  "execute_sql demo_env (demo_req\<lparr>QUERY := lit ''SELECT 'A' AS Letter''\<rparr>) [] =
     (Inr (Dict [(lit ''data'', Records [[(lit ''letter'', PStr (lit ''a''))]])]),
      [Connect 0 (get_conn_str demo_req), Execute 0 (lit ''select 'a' as letter'')])"
proof -
  define r where "r = demo_req\<lparr>QUERY := lit ''SELECT 'A' AS Letter''\<rparr>"
  define rs where "rs = \<lparr>rs_columns = [(lit ''letter'', 12)], rs_rows = [[Some ''a'']]\<rparr>"
  have g: "get_conn_str r = get_conn_str demo_req"
    by (simp add: r_def get_conn_str_def)
  have c: "odbc_connect demo_env (get_conn_str r) = None"
    by (simp only: g demo_connects)
  have qr: "QUERY r = lit ''SELECT 'A' AS Letter''"
    by (simp add: r_def)
  have l: "lower demo_env (QUERY r) = lit ''select 'a' as letter''"
    by (simp only: qr lower_example)
  have q: "odbc_execute demo_env (lower demo_env (QUERY r)) = Inr rs"
    unfolding l by (simp add: demo_env_def rs_def)
  have f: "to_dict_records (replace_nan (result_frame demo_env rs)) =
      [[(lit ''letter'', PStr (lit ''a''))]]"
    by (simp add: rs_def result_frame_def fetch_frame_def fetch_row_def converters_opened_conn
        demo_env_def to_dict_records_def to_record_def replace_nan_def nan_to_none_def)
  show ?thesis
    using execute_sql_ok [OF c q, of "[]"] unfolding r_def [symmetric] by (simp add: f g l)
qed

text \<open>The query text each endpoint sends, in general.\<close>

lemma execute_sql_sends_lowered:
  "odbc_connect env (get_conn_str req) = None \<Longrightarrow>
   Execute (length s) (lower env (QUERY req)) \<in> set (snd (execute_sql env req s))"
  by (cases "odbc_execute env (lower env (QUERY req))")
    (simp_all add: execute_sql_ok execute_sql_query_fail)

lemma download_file_sends_raw:
  "odbc_connect env (get_conn_str req) = None \<Longrightarrow>
   Execute (length s) (QUERY req) \<in> set (snd (download_file env req s))"
proof (cases "odbc_execute env (QUERY req)")
  case (Inl e)
  assume "odbc_connect env (get_conn_str req) = None"
  with Inl show ?thesis
    by (simp add: download_file_query_fail)
next
  case (Inr rs)
  assume "odbc_connect env (get_conn_str req) = None"
  with Inr show ?thesis
    by (cases "export_response env req (result_frame env rs)")
      (simp_all add: download_file_exported download_file_export_fail)
qed

text \<open>
  C2 (fails on \<^verbatim>\<open>execute_sql\<close>). The claim: every operation closes the connection it opened
  before it returns or raises. \<^verbatim>\<open>test_connection\<close> and \<^verbatim>\<open>download_file\<close> call
  \<^verbatim>\<open>conn.close()\<close>; \<^verbatim>\<open>execute_sql\<close> never does. On the example database the connection
  with handle 0 is still open when \<^verbatim>\<open>execute_sql\<close> has returned its data, and closed after
  the two other handlers.
\<close>

theorem C2_execute_sql_leaves_connection_open:
  "open_conns (snd (execute_sql demo_env demo_req [])) = [0]
   \<and> open_conns (snd (test_connection demo_env demo_req [])) = []
   \<and> open_conns (snd (download_file demo_env demo_req [])) = []"
proof -
  have "snd (execute_sql demo_env demo_req []) =
          [Connect 0 (get_conn_str demo_req), Execute 0 (lower demo_env (QUERY demo_req))]"
    using execute_sql_ok [OF demo_connects demo_lowered_query, of "[]"] by simp
  then have 1: "open_conns (snd (execute_sql demo_env demo_req [])) = [0]"
    by (simp add: open_conns_def)
  have "snd (test_connection demo_env demo_req []) = [Connect 0 (get_conn_str demo_req), Close 0]"
    using test_connection_ok [OF demo_connects, of "[]"] by simp
  then have 2: "open_conns (snd (test_connection demo_env demo_req [])) = []"
    by (simp add: open_conns_def)
  have "snd (download_file demo_env demo_req []) =
          [Connect 0 (get_conn_str demo_req), Execute 0 (QUERY demo_req), Close 0]"
    by (cases "export_response demo_env demo_req (result_frame demo_env demo_rs)")
      (simp_all add: download_file_exported [OF demo_connects demo_query]
        download_file_export_fail [OF demo_connects demo_query])
  then have 3: "open_conns (snd (download_file demo_env demo_req [])) = []"
    by (simp add: open_conns_def)
  from 1 2 3 show ?thesis by simp
qed

text \<open>In general: which handlers leave the connection they opened closed.\<close>

lemma execute_sql_trace:
  "odbc_connect env (get_conn_str req) = None \<Longrightarrow>
   open_conns (snd (execute_sql env req s)) = open_conns s @ [length s]"
proof -
  assume c: "odbc_connect env (get_conn_str req) = None"
  have o: "open_conns (s @ [Connect (length s) cs, Execute (length s) q]) = open_conns s @ [length s]"
    for cs q
    using open_conns_snoc [of "s @ [Connect (length s) cs]" "Execute (length s) q"]
      open_conns_snoc [of s "Connect (length s) cs"]
    by simp
  show ?thesis
  proof (cases "odbc_execute env (lower env (QUERY req))")
    case (Inl e)
    show ?thesis
      using execute_sql_query_fail [OF c Inl, of s] o [of "get_conn_str req" "lower env (QUERY req)"]
        open_conns_snoc [of "s @ [Connect (length s) (get_conn_str req),
          Execute (length s) (lower env (QUERY req))]" "Print (lit ''Error: '' @ e)"]
      by simp
  next
    case (Inr rs)
    show ?thesis
      using execute_sql_ok [OF c Inr, of s] o [of "get_conn_str req" "lower env (QUERY req)"]
      by simp
  qed
qed

lemma execute_sql_never_closes:
  "odbc_connect env (get_conn_str req) = None \<Longrightarrow>
   length s \<in> set (open_conns (snd (execute_sql env req s)))"
  by (simp add: execute_sql_trace)

lemma test_connection_closes:
  "odbc_connect env (get_conn_str req) = None \<Longrightarrow>
   length s \<notin> set (open_conns (snd (test_connection env req s)))"
  using open_conns_snoc [of "s @ [Connect (length s) (get_conn_str req)]" "Close (length s)"]
  by (simp add: test_connection_ok)

lemma download_file_closes:
  "odbc_connect env (get_conn_str req) = None \<Longrightarrow>
   length s \<notin> set (open_conns (snd (download_file env req s)))"
proof -
  assume c: "odbc_connect env (get_conn_str req) = None"
  have t: "snd (download_file env req s) =
      s @ [Connect (length s) (get_conn_str req), Execute (length s) (QUERY req), Close (length s)]"
  proof (cases "odbc_execute env (QUERY req)")
    case (Inl e)
    with c show ?thesis by (simp add: download_file_query_fail)
  next
    case (Inr rs)
    with c show ?thesis
      by (cases "export_response env req (result_frame env rs)")
        (simp_all add: download_file_exported download_file_export_fail)
  qed
  show ?thesis
    using open_conns_snoc [of "s @ [Connect (length s) (get_conn_str req),
        Execute (length s) (QUERY req)]" "Close (length s)"]
    by (simp add: t)
qed

text \<open>
  C3. When the connection and the (lowered) query succeed, \<^verbatim>\<open>execute_sql\<close> returns a dict
  with the single key \<^verbatim>\<open>data\<close> holding one record per row of the result set; no value
  of any record is NaN, and (for distinct column names and full rows) the record of row
  \<open>i\<close> maps the name of column \<open>j\<close> to the frame's cell with NaN replaced by
  \<^verbatim>\<open>None\<close> and every other cell as it was.
\<close>

theorem C3_execute_sql_nan_to_null:
  assumes "odbc_connect env (get_conn_str req) = None"
      and "odbc_execute env (lower env (QUERY req)) = Inr rs"
  shows "\<exists>recs.
      fst (execute_sql env req s) = Inr (Dict [(lit ''data'', Records recs)])
      \<and> length recs = length (rs_rows rs)
      \<and> (\<forall>r \<in> set recs. \<forall>(k, v) \<in> set r. v \<noteq> PNaN)
      \<and> (\<forall>i j. i < length (rs_rows rs) \<and> j < length (rs_columns rs)
                \<and> length (rs_rows rs ! i) = length (rs_columns rs)
                \<and> distinct (map fst (rs_columns rs)) \<longrightarrow>
           map_of (recs ! i) (fst (rs_columns rs ! j)) =
             Some (if rows (result_frame env rs) ! i ! j = PNaN then PNone
                   else rows (result_frame env rs) ! i ! j))"
proof -
  let ?df = "result_frame env rs"
  let ?recs = "to_dict_records (replace_nan ?df)"
  have 1: "fst (execute_sql env req s) = Inr (Dict [(lit ''data'', Records ?recs)])"
    using execute_sql_ok [OF assms, of s] by simp
  have 2: "length ?recs = length (rs_rows rs)"
    by (simp add: to_dict_records_def replace_nan_def length_rows_result_frame)
  have 3: "\<forall>r \<in> set ?recs. \<forall>(k, v) \<in> set r. v \<noteq> PNaN"
    using records_no_nan [of _ ?df] by blast
  have 4: "map_of (?recs ! i) (fst (rs_columns rs ! j)) =
      Some (if rows ?df ! i ! j = PNaN then PNone else rows ?df ! i ! j)"
    if "i < length (rs_rows rs) \<and> j < length (rs_columns rs)
        \<and> length (rs_rows rs ! i) = length (rs_columns rs)
        \<and> distinct (map fst (rs_columns rs))" for i j
  proof -
    have "map_of (?recs ! i) (columns ?df ! j) = Some (nan_to_none (rows ?df ! i ! j))"
      using that
      by (intro records_cell)
        (simp_all add: length_rows_result_frame columns_result_frame length_row_result_frame)
    then show ?thesis
      using that by (simp add: columns_result_frame nan_to_none_if)
  qed
  from 1 2 3 4 show ?thesis
    by blast
qed

theorem C3_execute_sql_nan_to_null_witness:
  "odbc_connect demo_env (get_conn_str demo_req) = None
   \<and> odbc_execute demo_env (lower demo_env (QUERY demo_req)) = Inr demo_rs
   \<and> rows (result_frame demo_env demo_rs) ! 1 ! 0 = PNaN
   \<and> (\<exists>recs. fst (execute_sql demo_env demo_req []) = Inr (Dict [(lit ''data'', Records recs)])
          \<and> length recs = 2
          \<and> map_of (recs ! 1) (lit ''id'') = Some PNone)"
proof -
  from C3_execute_sql_nan_to_null [OF demo_connects demo_lowered_query, of "[]"]
  obtain recs where
    a: "fst (execute_sql demo_env demo_req []) = Inr (Dict [(lit ''data'', Records recs)])"
    and b: "length recs = length (rs_rows demo_rs)"
    and c: "\<forall>i j. i < length (rs_rows demo_rs) \<and> j < length (rs_columns demo_rs)
                \<and> length (rs_rows demo_rs ! i) = length (rs_columns demo_rs)
                \<and> distinct (map fst (rs_columns demo_rs)) \<longrightarrow>
           map_of (recs ! i) (fst (rs_columns demo_rs ! j)) =
             Some (if rows (result_frame demo_env demo_rs) ! i ! j = PNaN then PNone
                   else rows (result_frame demo_env demo_rs) ! i ! j)"
    by (elim exE conjE)
  have n: "rows (result_frame demo_env demo_rs) ! 1 ! 0 = PNaN"
    by (simp add: demo_frame_row_1)
  from c [rule_format, of 1 0] have "map_of (recs ! 1) (lit ''id'') = Some PNone"
    by (simp add: demo_rs_shape demo_frame_row_1)
  with a b n demo_connects demo_lowered_query show ?thesis
    by (auto simp: demo_rs_shape)
qed

text \<open>
  C4 (as stated, fails for delimiters that are not one character). The claim: for a FORMAT
  other than \<^verbatim>\<open>excel\<close> the exported text is the result set with the DELIMITER field as
  column separator, for any delimiter string. \<^verbatim>\<open>to_csv\<close> hands the separator to
  \<^verbatim>\<open>csv.writer\<close>, which refuses a delimiter of any other length than one: on the example
  database the delimiter \<^verbatim>\<open>||\<close> yields no text at all, the request fails.
\<close>

theorem C4_two_character_delimiter_counterexample:
  "FORMAT (demo_req\<lparr>DELIMITER := lit ''||''\<rparr>) \<noteq> lit ''excel''
   \<and> odbc_connect demo_env (get_conn_str (demo_req\<lparr>DELIMITER := lit ''||''\<rparr>)) = None
   \<and> odbc_execute demo_env (QUERY (demo_req\<lparr>DELIMITER := lit ''||''\<rparr>)) = Inr demo_rs
   \<and> to_csv demo_env False (DELIMITER (demo_req\<lparr>DELIMITER := lit ''||''\<rparr>))
         (result_frame demo_env demo_rs) =
        Inl (lit ([CHR 0x22] @ ''delimiter'' @ [CHR 0x22] @ '' must be a 1-character string''))
   \<and> isl (fst (download_file demo_env (demo_req\<lparr>DELIMITER := lit ''||''\<rparr>) []))"
proof -
  define r where "r = demo_req\<lparr>DELIMITER := lit ''||''\<rparr>"
  have f: "FORMAT r \<noteq> lit ''excel''"
    by (simp add: r_def demo_req_def)
  have c: "odbc_connect demo_env (get_conn_str r) = None"
    by (simp add: r_def demo_env_def demo_req_def get_conn_str_def)
  have q: "odbc_execute demo_env (QUERY r) = Inr demo_rs"
    by (simp add: r_def demo_env_def demo_req_def)
  have n: "length (DELIMITER r) \<noteq> 1"
    by (simp add: r_def)
  have t: "to_csv demo_env False (DELIMITER r) (result_frame demo_env demo_rs) =
      Inl (lit ([CHR 0x22] @ ''delimiter'' @ [CHR 0x22] @ '' must be a 1-character string''))"
    using n by (rule to_csv_refused)
  have "isl (fst (download_file demo_env r []))"
    using download_file_export_fails [OF c q export_response_bad_delimiter [OF f n], of "[]"]
    by simp
  with f c q t show ?thesis
    unfolding r_def by blast
qed

text \<open>
  C4, amended. For a \<^verbatim>\<open>/download\<close> request with a FORMAT other than \<^verbatim>\<open>excel\<close> whose
  connection and query succeed: whenever a text is exported, DELIMITER is a single character
  \<open>d\<close> and the exported bytes are the UTF-8 encoding of the header line of column names
  followed by one line per row and no index column, each line written with \<open>d\<close> as the
  separator (a line whose fields need no quoting is exactly its fields joined by \<open>d\<close>,
  then the line terminator). That text is exported whenever DELIMITER is a single character,
  the text can be encoded as UTF-8 and FORMAT, which goes into a response header, has no
  character above code point 255. If DELIMITER has any other length than one, no text is
  exported and the request fails.
\<close>

theorem C4_single_character_delimiter:
  assumes "odbc_connect env (get_conn_str req) = None"
      and "odbc_execute env (QUERY req) = Inr rs"
      and "FORMAT req \<noteq> lit ''excel''"
  shows "(DELIMITER req = [d] \<and> is_latin1 (FORMAT req)
            \<and> encode_utf8 (concat (map (csv_row env d)
                 (columns (result_frame env rs)
                  # map (map (cell_text env)) (rows (result_frame env rs))))) = Inr body \<longrightarrow>
           (\<exists>media headers.
              fst (download_file env req s) = Inr (StreamingResponse body media headers)))
     \<and> (fst (download_file env req s) = Inr (StreamingResponse out media' headers') \<longrightarrow>
           (\<exists>d'. DELIMITER req = [d']
              \<and> encode_utf8 (concat (map (csv_row env d')
                   (columns (result_frame env rs)
                    # map (map (cell_text env)) (rows (result_frame env rs))))) = Inr out))
     \<and> (\<forall>flds. flds \<noteq> [[]] \<and> (\<forall>f \<in> set flds. filter (csv_special env d) f = []) \<longrightarrow>
           csv_row env d flds = join [d] flds @ os_linesep env)
     \<and> (length (DELIMITER req) \<noteq> 1 \<longrightarrow> isl (fst (download_file env req s)))"
proof (intro conjI impI allI)
  assume a: "DELIMITER req = [d] \<and> is_latin1 (FORMAT req)
      \<and> encode_utf8 (concat (map (csv_row env d)
           (columns (result_frame env rs)
            # map (map (cell_text env)) (rows (result_frame env rs))))) = Inr body"
  then have "encode_utf8 (csv_text env d (result_frame env rs)) = Inr body"
    by (simp add: csv_text_def)
  moreover from a have "DELIMITER req = [d]" and "is_latin1 (FORMAT req)"
    by blast+
  ultimately have "export_response env req (result_frame env rs) =
      Inr (StreamingResponse body
            (if FORMAT req = lit ''csv'' then lit ''text/csv'' else lit ''text/plain'')
            [(lit ''Content-Disposition'', lit ''attachment; filename=query_export.'' @ FORMAT req)])"
    using assms(3) by (intro export_response_csv_ok)
  from download_file_exported [OF assms(1,2) this, of s]
  show "\<exists>media headers.
      fst (download_file env req s) = Inr (StreamingResponse body media headers)"
    by simp
next
  assume r: "fst (download_file env req s) = Inr (StreamingResponse out media' headers')"
  then have "export_response env req (result_frame env rs) = Inr (StreamingResponse out media' headers')"
    using download_file_fetched [OF assms(1,2), of s]
    by (cases "export_response env req (result_frame env rs)") simp_all
  from export_response_csv_only [OF assms(3) this]
  show "\<exists>d'. DELIMITER req = [d']
      \<and> encode_utf8 (concat (map (csv_row env d')
           (columns (result_frame env rs)
            # map (map (cell_text env)) (rows (result_frame env rs))))) = Inr out"
    by (auto simp: csv_text_def)
next
  fix flds
  assume "flds \<noteq> [[]] \<and> (\<forall>f \<in> set flds. filter (csv_special env d) f = [])"
  then show "csv_row env d flds = join [d] flds @ os_linesep env"
    by (simp add: csv_row_plain)
next
  assume "length (DELIMITER req) \<noteq> 1"
  from download_file_export_fails [OF assms(1,2) export_response_bad_delimiter [OF assms(3) this], of s]
  show "isl (fst (download_file env req s))"
    by simp
qed

theorem C4_single_character_delimiter_witness:
  "odbc_connect demo_env (get_conn_str demo_req) = None
   \<and> odbc_execute demo_env (QUERY demo_req) = Inr demo_rs
   \<and> FORMAT demo_req \<noteq> lit ''excel''
   \<and> DELIMITER demo_req = [Ch (CHR '';'')] \<and> is_latin1 (FORMAT demo_req)
   \<and> (\<exists>media headers.
         fst (download_file demo_env demo_req []) =
           Inr (StreamingResponse
                  (''id;note;shape\<newline>1;;b'P'\<newline>;'' @ [CHR 0x22] @ ''a;b'' @ [CHR 0x22] @ '';\<newline>'')
                  media headers))
   \<and> csv_row demo_env (Ch (CHR '';'')) [lit ''id'', lit ''note'', lit ''shape'']
       = lit ''id;note;shape\<newline>''"
proof -
  have f: "FORMAT demo_req \<noteq> lit ''excel''" and d: "DELIMITER demo_req = [Ch (CHR '';'')]"
    and l: "is_latin1 (FORMAT demo_req)"
    by (simp_all add: demo_req_def is_latin1_def)
  note t = C4_single_character_delimiter [OF demo_connects demo_query f,
      where d = "Ch (CHR '';'')" and s = "[]"]
  have b: "encode_utf8 (concat (map (csv_row demo_env (Ch (CHR '';'')))
          (columns (result_frame demo_env demo_rs)
           # map (map (cell_text demo_env)) (rows (result_frame demo_env demo_rs))))) =
      Inr (''id;note;shape\<newline>1;;b'P'\<newline>;'' @ [CHR 0x22] @ ''a;b'' @ [CHR 0x22] @ '';\<newline>'')"
    using demo_csv_body by (simp only: csv_text_def)
  from t [THEN conjunct1, THEN mp, OF conjI [OF d conjI [OF l b]]]
  have 1: "\<exists>media headers.
         fst (download_file demo_env demo_req []) =
           Inr (StreamingResponse
                  (''id;note;shape\<newline>1;;b'P'\<newline>;'' @ [CHR 0x22] @ ''a;b'' @ [CHR 0x22] @ '';\<newline>'')
                  media headers)" .
  have p: "[lit ''id'', lit ''note'', lit ''shape''] \<noteq> [[]]
      \<and> (\<forall>f \<in> set [lit ''id'', lit ''note'', lit ''shape''].
            filter (csv_special demo_env (Ch (CHR '';''))) f = [])"
    by (simp add: csv_special_def demo_env_csv)
  from t [THEN conjunct2, THEN conjunct2, THEN conjunct1, rule_format, OF p]
  have 2: "csv_row demo_env (Ch (CHR '';'')) [lit ''id'', lit ''note'', lit ''shape'']
      = lit ''id;note;shape\<newline>''"
    by (simp add: demo_env_csv)
  from demo_connects demo_query f d l 1 2 show ?thesis
    by (intro conjI)
qed

text \<open>
  C5. If \<^verbatim>\<open>pyodbc.connect\<close> raises, with whatever text \<open>e\<close>, each of the three handlers
  answers \<^verbatim>\<open>HTTPException(400, "Connection Error: " + e)\<close> and leaves the trace as it
  was: nothing was sent to the driver, so no query was executed.
\<close>

theorem C5_connection_error_400:
  assumes "odbc_connect env (get_conn_str req) = Some e"
  shows "test_connection env req s = (Inl (HTTPException 400 (lit ''Connection Error: '' @ e)), s)
     \<and> execute_sql env req s = (Inl (HTTPException 400 (lit ''Connection Error: '' @ e)), s)
     \<and> download_file env req s = (Inl (HTTPException 400 (lit ''Connection Error: '' @ e)), s)"
  using assms
  by (simp add: test_connection_connect_fail execute_sql_connect_fail download_file_connect_fail)

theorem C5_connection_error_400_witness:
  "odbc_connect demo_env (get_conn_str (demo_req\<lparr>PASSWORD := lit ''guess''\<rparr>)) = Some (lit ''Login failed'')
   \<and> test_connection demo_env (demo_req\<lparr>PASSWORD := lit ''guess''\<rparr>) [] =
       (Inl (HTTPException 400 (lit ''Connection Error: Login failed'')), [])
   \<and> execute_sql demo_env (demo_req\<lparr>PASSWORD := lit ''guess''\<rparr>) [] =
       (Inl (HTTPException 400 (lit ''Connection Error: Login failed'')), [])
   \<and> download_file demo_env (demo_req\<lparr>PASSWORD := lit ''guess''\<rparr>) [] =
       (Inl (HTTPException 400 (lit ''Connection Error: Login failed'')), [])"
proof -
  have h: "odbc_connect demo_env (get_conn_str (demo_req\<lparr>PASSWORD := lit ''guess''\<rparr>))
      = Some (lit ''Login failed'')"
    by (simp add: demo_env_def demo_req_def get_conn_str_def)
  show ?thesis
    using h C5_connection_error_400 [OF h, of "[]"] by simp
qed

lemma big_rs_rows: "length (rs_rows big_rs) = 1048576"
  by (simp only: big_rs_def resultset.select_convs length_replicate)

lemma demo_excel_writer:
  "excel_writer demo_env engine sheet index df =
     (if length (rows df) < 1048576 then Inr ''PK'' else Inl (lit ''This sheet is too large!''))"
  by (simp add: demo_env_def)

text \<open>
  C6 (as stated, fails when the workbook cannot be written). The claim: a \<^verbatim>\<open>/download\<close>
  request with FORMAT \<^verbatim>\<open>excel\<close> whose query succeeds is answered with the workbook. The
  writer can still raise after the query succeeded: table \<open>big\<close> of the example database
  has more rows than a worksheet holds, the writer refuses it, and the request fails.
\<close>

theorem C6_sheet_too_large_counterexample:
  "FORMAT (demo_req\<lparr>QUERY := lit ''select n from big'', FORMAT := lit ''excel''\<rparr>) = lit ''excel''
   \<and> odbc_connect demo_env
        (get_conn_str (demo_req\<lparr>QUERY := lit ''select n from big'', FORMAT := lit ''excel''\<rparr>)) = None
   \<and> odbc_execute demo_env
        (QUERY (demo_req\<lparr>QUERY := lit ''select n from big'', FORMAT := lit ''excel''\<rparr>)) = Inr big_rs
   \<and> isl (fst (download_file demo_env
        (demo_req\<lparr>QUERY := lit ''select n from big'', FORMAT := lit ''excel''\<rparr>) []))"
proof -
  define r where "r = demo_req\<lparr>QUERY := lit ''select n from big'', FORMAT := lit ''excel''\<rparr>"
  have f: "FORMAT r = lit ''excel''"
    by (simp add: r_def)
  have c: "odbc_connect demo_env (get_conn_str r) = None"
    by (simp add: r_def demo_env_def demo_req_def get_conn_str_def)
  have q: "odbc_execute demo_env (QUERY r) = Inr big_rs"
    by (simp add: r_def demo_env_def)
  have "excel_writer demo_env (lit ''openpyxl'') (lit ''SQL_Results'') False (result_frame demo_env big_rs)
      = Inl (lit ''This sheet is too large!'')"
    by (simp only: demo_excel_writer length_rows_result_frame big_rs_rows) simp
  from export_response_excel_fail [OF f this]
  have "isl (export_response demo_env r (result_frame demo_env big_rs))"
    by simp
  from download_file_export_fails [OF c q this, of "[]"]
  have "isl (fst (download_file demo_env r []))"
    by simp
  with f c q show ?thesis
    unfolding r_def by blast
qed

text \<open>
  C6, amended. A \<^verbatim>\<open>/download\<close> request with FORMAT \<^verbatim>\<open>excel\<close> whose connection and query
  succeed and whose workbook is written (openpyxl engine, sheet \<^verbatim>\<open>SQL_Results\<close>,
  \<^verbatim>\<open>index=False\<close>, over the frame of the query) is answered by a streaming response that
  carries the workbook's bytes, the spreadsheetml media type and an attachment file name
  ending in \<^verbatim>\<open>.xlsx\<close>; the connection is closed by then. If the writer raises, no workbook
  is returned and the request fails.
\<close>

theorem C6_excel_export:
  assumes "odbc_connect env (get_conn_str req) = None"
      and "odbc_execute env (QUERY req) = Inr rs"
      and "FORMAT req = lit ''excel''"
  shows "(excel_writer env (lit ''openpyxl'') (lit ''SQL_Results'') False (result_frame env rs) = Inr wb \<longrightarrow>
            download_file env req s =
              (Inr (StreamingResponse wb
                      (lit ''application/vnd.openxmlformats-officedocument.spreadsheetml.sheet'')
                      [(lit ''Content-Disposition'', lit ''attachment; filename=query_export.xlsx'')]),
               s @ [Connect (length s) (get_conn_str req), Execute (length s) (QUERY req),
                    Close (length s)]))
     \<and> (excel_writer env (lit ''openpyxl'') (lit ''SQL_Results'') False (result_frame env rs) = Inl e \<longrightarrow>
            isl (fst (download_file env req s)))"
proof (intro conjI impI)
  assume "excel_writer env (lit ''openpyxl'') (lit ''SQL_Results'') False (result_frame env rs) = Inr wb"
  from download_file_exported [OF assms(1,2) export_response_excel_ok [OF assms(3) this], of s]
  show "download_file env req s =
      (Inr (StreamingResponse wb
              (lit ''application/vnd.openxmlformats-officedocument.spreadsheetml.sheet'')
              [(lit ''Content-Disposition'', lit ''attachment; filename=query_export.xlsx'')]),
       s @ [Connect (length s) (get_conn_str req), Execute (length s) (QUERY req), Close (length s)])" .
next
  assume "excel_writer env (lit ''openpyxl'') (lit ''SQL_Results'') False (result_frame env rs) = Inl e"
  from export_response_excel_fail [OF assms(3) this]
  have "isl (export_response env req (result_frame env rs))"
    by simp
  from download_file_export_fails [OF assms(1,2) this, of s]
  show "isl (fst (download_file env req s))"
    by simp
qed

theorem C6_excel_export_witness:
  "odbc_connect demo_env (get_conn_str (demo_req\<lparr>FORMAT := lit ''excel''\<rparr>)) = None
   \<and> odbc_execute demo_env (QUERY (demo_req\<lparr>FORMAT := lit ''excel''\<rparr>)) = Inr demo_rs
   \<and> FORMAT (demo_req\<lparr>FORMAT := lit ''excel''\<rparr>) = lit ''excel''
   \<and> excel_writer demo_env (lit ''openpyxl'') (lit ''SQL_Results'') False (result_frame demo_env demo_rs)
       = Inr ''PK''
   \<and> download_file demo_env (demo_req\<lparr>FORMAT := lit ''excel''\<rparr>) [] =
     (Inr (StreamingResponse ''PK''
             (lit ''application/vnd.openxmlformats-officedocument.spreadsheetml.sheet'')
             [(lit ''Content-Disposition'', lit ''attachment; filename=query_export.xlsx'')]),
      [Connect 0 (get_conn_str demo_req), Execute 0 (QUERY demo_req), Close 0])"
proof -
  define r where "r = demo_req\<lparr>FORMAT := lit ''excel''\<rparr>"
  have h1: "odbc_connect demo_env (get_conn_str r) = None"
    by (simp add: r_def demo_env_def demo_req_def get_conn_str_def)
  have h2: "odbc_execute demo_env (QUERY r) = Inr demo_rs"
    by (simp add: r_def demo_env_def demo_req_def)
  have h3: "FORMAT r = lit ''excel''"
    by (simp add: r_def)
  have h4: "excel_writer demo_env (lit ''openpyxl'') (lit ''SQL_Results'') False (result_frame demo_env demo_rs)
      = Inr ''PK''"
    by (simp only: demo_excel_writer length_rows_result_frame demo_rs_shape) simp
  have g: "get_conn_str r = get_conn_str demo_req" "QUERY r = QUERY demo_req"
    by (simp_all add: r_def get_conn_str_def)
  from C6_excel_export [OF h1 h2 h3, where wb = "''PK''" and s = "[]", THEN conjunct1, THEN mp, OF h4]
  have "download_file demo_env r [] =
     (Inr (StreamingResponse ''PK''
             (lit ''application/vnd.openxmlformats-officedocument.spreadsheetml.sheet'')
             [(lit ''Content-Disposition'', lit ''attachment; filename=query_export.xlsx'')]),
      [Connect 0 (get_conn_str demo_req), Execute 0 (QUERY demo_req), Close 0])"
    by (simp add: g)
  with h1 h2 h3 h4 show ?thesis
    unfolding r_def by (intro conjI)
qed

text \<open>
  C7 (fails on \<^verbatim>\<open>execute_sql\<close>). The claim: no operation reads or writes server-side state
  that survives a request, so equal requests get equal responses and no request influences
  another. No handler reads such state: the response is the same from any two traces (the
  three lemmas above on stateless responses). But \<^verbatim>\<open>execute_sql\<close> leaves the connection it
  opened open, the defect of C2: on the example database the connection of a first
  \<^verbatim>\<open>/execute-sql\<close> request is still open after that request, and still open after a later
  \<^verbatim>\<open>/test-connection\<close> request has opened and closed its own.
\<close>

theorem C7_connection_survives_requests:
  "open_conns (snd (execute_sql demo_env demo_req [])) = [0]
   \<and> open_conns (snd (test_connection demo_env demo_req (snd (execute_sql demo_env demo_req []))))
       = [0]"
proof -
  define s1 where "s1 = snd (execute_sql demo_env demo_req [])"
  have 1: "open_conns s1 = [0]"
    unfolding s1_def using execute_sql_trace [OF demo_connects, of "[]"]
    by (simp add: open_conns_def)
  have "snd (test_connection demo_env demo_req s1) =
      s1 @ [Connect (length s1) (get_conn_str demo_req), Close (length s1)]"
    by (simp add: test_connection_ok [OF demo_connects])
  then have "open_conns (snd (test_connection demo_env demo_req s1)) =
      removeAll (length s1) (open_conns s1 @ [length s1])"
    using open_conns_snoc [of "s1 @ [Connect (length s1) (get_conn_str demo_req)]" "Close (length s1)"]
      open_conns_snoc [of s1 "Connect (length s1) (get_conn_str demo_req)"]
    by simp
  moreover have "length s1 = 2"
    unfolding s1_def using execute_sql_ok [OF demo_connects demo_lowered_query, of "[]"]
    by simp
  ultimately have 2: "open_conns (snd (test_connection demo_env demo_req s1)) = [0]"
    by (simp add: 1)
  from 1 2 show ?thesis
    unfolding s1_def by simp
qed

text \<open>
  C8 (fails on \<^verbatim>\<open>download_file\<close> when the export step raises). The claim: when the
  connection succeeds and the query or the export fails, \<^verbatim>\<open>/execute-sql\<close> answers 500 with
  the bare error text and \<^verbatim>\<open>/download\<close> answers 400 with \<^verbatim>\<open>Export Error:\<close>. For a failing
  query both hold. When \<^verbatim>\<open>to_csv\<close> or the workbook writer raises, \<^verbatim>\<open>download_file\<close> has
  already closed the connection (line 87), its handler closes it again (line 110), pyodbc
  raises on the closed connection, and that exception leaves the handler instead of the
  \<^verbatim>\<open>HTTPException\<close>. On the example database, with the two-character delimiter
  \<^verbatim>\<open>", "\<close>:
\<close>

theorem C8_download_export_failure_unhandled:
  "fst (download_file demo_env (demo_req\<lparr>DELIMITER := lit '', ''\<rparr>) []) =
     Inl (Unhandled (lit ''Attempt to use a closed connection.''))"
proof -
  define r where "r = demo_req\<lparr>DELIMITER := lit '', ''\<rparr>"
  have f: "FORMAT r \<noteq> lit ''excel''"
    by (simp add: r_def demo_req_def)
  have c: "odbc_connect demo_env (get_conn_str r) = None"
    by (simp add: r_def demo_env_def demo_req_def get_conn_str_def)
  have q: "odbc_execute demo_env (QUERY r) = Inr demo_rs"
    by (simp add: r_def demo_env_def demo_req_def)
  have n: "length (DELIMITER r) \<noteq> 1"
    by (simp add: r_def)
  from download_file_export_fails [OF c q export_response_bad_delimiter [OF f n], of "[]"]
  show ?thesis
    unfolding r_def .
qed

text \<open>The part of C8 that holds: a failing query.\<close>

lemma query_failure_statuses:
  assumes "odbc_connect env (get_conn_str req) = None"
  shows "odbc_execute env (lower env (QUERY req)) = Inl e \<Longrightarrow>
           fst (execute_sql env req s) = Inl (HTTPException 500 e)"
    and "odbc_execute env (QUERY req) = Inl e \<Longrightarrow>
           fst (download_file env req s) = Inl (HTTPException 400 (lit ''Export Error: '' @ e))"
  using assms by (simp_all add: execute_sql_query_fail download_file_query_fail)

lemma strict_env_fields:
  "odbc_connect strict_env = odbc_connect demo_env"
  "odbc_execute strict_env = odbc_execute demo_env"
  "null_to_converter strict_env = False"
  "py_str strict_env = py_str demo_env"
  "odbc_decode strict_env = odbc_decode demo_env"
  by (simp_all add: strict_env_def)

lemma strict_lowered_query: "odbc_execute strict_env (lower strict_env (QUERY demo_req)) = Inr demo_rs"
  by (simp add: strict_env_fields lower_demo_query demo_query)

lemma strict_frame: "result_frame strict_env demo_rs =
   \<lparr>columns = [lit ''id'', lit ''note'', lit ''shape''],
    rows = [[PVal 1, PNone, PStr (lit (''b'P'' @ [CHR 0x27]))],
            [PNaN, PStr (lit ''a;b''), PNone]]\<rparr>"
  by (simp add: result_frame_def fetch_frame_def fetch_row_def demo_rs_def strict_env_def
      demo_env_def converters_opened_conn handle_special_types_def)

text \<open>
  C9 (as stated, fails for NULL where the driver does not call the converter). The claim:
  in a column of ODBC type -152 (xml) or -151 (geometry) values become their string form and
  NULL becomes the empty string, not null, on every query endpoint. The converter
  \<^verbatim>\<open>handle_special_types\<close> maps \<^verbatim>\<open>None\<close> to the empty string, but only the driver decides
  whether it is called for a NULL cell. Behind a driver that yields \<^verbatim>\<open>None\<close> for NULL
  itself, the NULL geometry of the second row of table \<open>t\<close> reaches the preview as null.
\<close>

theorem C9_null_stays_null_counterexample:
  "snd (rs_columns demo_rs ! 2) = - 151
   \<and> rs_rows demo_rs ! 1 ! 2 = None
   \<and> fst (execute_sql strict_env demo_req []) =
       Inr (Dict [(lit ''data'', Records
         [[(lit ''id'', PVal 1), (lit ''note'', PNone), (lit ''shape'', PStr (lit (''b'P'' @ [CHR 0x27])))],
          [(lit ''id'', PNone), (lit ''note'', PStr (lit ''a;b'')), (lit ''shape'', PNone)]])])"
proof -
  have c: "odbc_connect strict_env (get_conn_str demo_req) = None"
    by (simp add: strict_env_fields demo_connects)
  have "to_dict_records (replace_nan (result_frame strict_env demo_rs)) =
         [[(lit ''id'', PVal 1), (lit ''note'', PNone), (lit ''shape'', PStr (lit (''b'P'' @ [CHR 0x27])))],
          [(lit ''id'', PNone), (lit ''note'', PStr (lit ''a;b'')), (lit ''shape'', PNone)]]"
    by (simp add: strict_frame to_dict_records_def to_record_def replace_nan_def nan_to_none_def)
  then have "fst (execute_sql strict_env demo_req []) =
       Inr (Dict [(lit ''data'', Records
         [[(lit ''id'', PVal 1), (lit ''note'', PNone), (lit ''shape'', PStr (lit (''b'P'' @ [CHR 0x27])))],
          [(lit ''id'', PNone), (lit ''note'', PStr (lit ''a;b'')), (lit ''shape'', PNone)]])])"
    using execute_sql_ok [OF c strict_lowered_query, of "[]"] by simp
  moreover have "snd (rs_columns demo_rs ! 2) = - 151" and "rs_rows demo_rs ! 1 ! 2 = None"
    by (simp_all add: demo_rs_shape)
  ultimately show ?thesis
    by (intro conjI)
qed

text \<open>
  C9, amended. With the connection open, row \<open>i\<close> full and column \<open>j\<close> of ODBC type -152
  or -151: a value that is not NULL becomes its \<^verbatim>\<open>str\<close> form; a NULL becomes the empty
  string where the driver calls the output converter for NULL, and stays \<^verbatim>\<open>None\<close> where
  it does not. \<^verbatim>\<open>execute_sql\<close> returns that cell under the column's name in the record of
  row \<open>i\<close>. \<^verbatim>\<open>download_file\<close> exports the frame with that cell: as delimited text, in
  which the cell is written as the string form, empty for NULL under either driver, or
  through the workbook writer.
\<close>

theorem C9_special_types_conversion:
  assumes "odbc_connect env (get_conn_str req) = None"
      and "i < length (rs_rows rs)" and "j < length (rs_columns rs)"
      and "length (rs_rows rs ! i) = length (rs_columns rs)"
      and "snd (rs_columns rs ! j) = - 152 \<or> snd (rs_columns rs ! j) = - 151"
  shows "rows (result_frame env rs) ! i ! j =
           (case rs_rows rs ! i ! j of
              Some b \<Rightarrow> PStr (py_str env b)
            | None \<Rightarrow> if null_to_converter env then PStr [] else PNone)
     \<and> cell_text env (rows (result_frame env rs) ! i ! j) =
           (case rs_rows rs ! i ! j of Some b \<Rightarrow> py_str env b | None \<Rightarrow> [])
     \<and> (odbc_execute env (lower env (QUERY req)) = Inr rs \<and> distinct (map fst (rs_columns rs)) \<longrightarrow>
           (\<exists>recs. fst (execute_sql env req s) = Inr (Dict [(lit ''data'', Records recs)])
                \<and> map_of (recs ! i) (fst (rs_columns rs ! j)) =
                    Some (rows (result_frame env rs) ! i ! j)))
     \<and> (odbc_execute env (QUERY req) = Inr rs \<and> FORMAT req \<noteq> lit ''excel''
          \<and> DELIMITER req = [d] \<and> is_latin1 (FORMAT req)
          \<and> encode_utf8 (concat (map (csv_row env d)
               (columns (result_frame env rs)
                # map (map (cell_text env)) (rows (result_frame env rs))))) = Inr body \<longrightarrow>
           (\<exists>media headers.
              fst (download_file env req s) = Inr (StreamingResponse body media headers)))
     \<and> (odbc_execute env (QUERY req) = Inr rs \<and> FORMAT req = lit ''excel''
          \<and> excel_writer env (lit ''openpyxl'') (lit ''SQL_Results'') False (result_frame env rs)
              = Inr wb \<longrightarrow>
           (\<exists>media headers.
              fst (download_file env req s) = Inr (StreamingResponse wb media headers)))"
proof (intro conjI impI)
  let ?df = "result_frame env rs"
  show cell: "rows ?df ! i ! j =
      (case rs_rows rs ! i ! j of
         Some b \<Rightarrow> PStr (py_str env b)
       | None \<Rightarrow> if null_to_converter env then PStr [] else PNone)"
    using result_frame_cell [OF assms(2,3,4), of env] assms(5)
    by auto
  show "cell_text env (rows ?df ! i ! j) =
      (case rs_rows rs ! i ! j of Some b \<Rightarrow> py_str env b | None \<Rightarrow> [])"
    by (simp add: cell cell_text_def split: option.splits)
  {
    assume q: "odbc_execute env (lower env (QUERY req)) = Inr rs \<and> distinct (map fst (rs_columns rs))"
    let ?recs = "to_dict_records (replace_nan ?df)"
    have "map_of (?recs ! i) (columns ?df ! j) = Some (nan_to_none (rows ?df ! i ! j))"
      using assms(2,3,4) q
      by (intro records_cell)
        (simp_all add: length_rows_result_frame columns_result_frame length_row_result_frame)
    moreover have "nan_to_none (rows ?df ! i ! j) = rows ?df ! i ! j"
      by (simp add: cell nan_to_none_def split: option.splits)
    ultimately have "map_of (?recs ! i) (fst (rs_columns rs ! j)) = Some (rows ?df ! i ! j)"
      using assms(3) by (simp add: columns_result_frame)
    moreover have "fst (execute_sql env req s) = Inr (Dict [(lit ''data'', Records ?recs)])"
      using execute_sql_ok [OF assms(1), of rs s] q by simp
    ultimately show "\<exists>recs. fst (execute_sql env req s) = Inr (Dict [(lit ''data'', Records recs)])
        \<and> map_of (recs ! i) (fst (rs_columns rs ! j)) = Some (rows ?df ! i ! j)"
      by blast
  }
  {
    assume a: "odbc_execute env (QUERY req) = Inr rs \<and> FORMAT req \<noteq> lit ''excel''
        \<and> DELIMITER req = [d] \<and> is_latin1 (FORMAT req)
        \<and> encode_utf8 (concat (map (csv_row env d)
             (columns ?df # map (map (cell_text env)) (rows ?df)))) = Inr body"
    then have a1: "FORMAT req \<noteq> lit ''excel''" and a2: "DELIMITER req = [d]"
      and a4: "is_latin1 (FORMAT req)" and a0: "odbc_execute env (QUERY req) = Inr rs"
      by blast+
    from a have a3: "encode_utf8 (csv_text env d ?df) = Inr body"
      by (simp add: csv_text_def)
    from download_file_exported [OF assms(1) a0 export_response_csv_ok [OF a1 a2 a3 a4], of s]
    show "\<exists>media headers.
        fst (download_file env req s) = Inr (StreamingResponse body media headers)"
      by simp
  }
  {
    assume a: "odbc_execute env (QUERY req) = Inr rs \<and> FORMAT req = lit ''excel''
        \<and> excel_writer env (lit ''openpyxl'') (lit ''SQL_Results'') False ?df = Inr wb"
    then have a0: "odbc_execute env (QUERY req) = Inr rs" and a1: "FORMAT req = lit ''excel''"
      and a2: "excel_writer env (lit ''openpyxl'') (lit ''SQL_Results'') False ?df = Inr wb"
      by blast+
    from download_file_exported [OF assms(1) a0 export_response_excel_ok [OF a1 a2], of s]
    show "\<exists>media headers.
        fst (download_file env req s) = Inr (StreamingResponse wb media headers)"
      by simp
  }
qed

theorem C9_special_types_conversion_witness:
  "odbc_connect demo_env (get_conn_str demo_req) = None
   \<and> (1::nat) < length (rs_rows demo_rs) \<and> (2::nat) < length (rs_columns demo_rs)
   \<and> length (rs_rows demo_rs ! 1) = length (rs_columns demo_rs)
   \<and> snd (rs_columns demo_rs ! 2) = - 151
   \<and> rs_rows demo_rs ! 1 ! 2 = None
   \<and> null_to_converter demo_env
   \<and> odbc_execute demo_env (lower demo_env (QUERY demo_req)) = Inr demo_rs
   \<and> distinct (map fst (rs_columns demo_rs))
   \<and> rows (result_frame demo_env demo_rs) ! 1 ! 2 = PStr []
   \<and> (\<exists>recs. fst (execute_sql demo_env demo_req []) = Inr (Dict [(lit ''data'', Records recs)])
          \<and> map_of (recs ! 1) (lit ''shape'') = Some (PStr []))"
proof -
  have h2: "(1::nat) < length (rs_rows demo_rs)" and h3: "(2::nat) < length (rs_columns demo_rs)"
    and h4: "length (rs_rows demo_rs ! 1) = length (rs_columns demo_rs)"
    and h5: "snd (rs_columns demo_rs ! 2) = - 152 \<or> snd (rs_columns demo_rs ! 2) = - 151"
    and n: "rs_rows demo_rs ! 1 ! 2 = None"
    by (simp_all add: demo_rs_shape)
  have z: "null_to_converter demo_env"
    by (simp add: demo_env_def)
  have q: "odbc_execute demo_env (lower demo_env (QUERY demo_req)) = Inr demo_rs
      \<and> distinct (map fst (rs_columns demo_rs))"
    by (simp add: demo_lowered_query demo_rs_shape)
  note t = C9_special_types_conversion [OF demo_connects h2 h3 h4 h5, where s = "[]"]
  from t [THEN conjunct1] have 1: "rows (result_frame demo_env demo_rs) ! 1 ! 2 = PStr []"
    by (simp add: demo_rs_shape z)
  from t [THEN conjunct2, THEN conjunct2, THEN conjunct1, THEN mp, OF q]
  have 2: "\<exists>recs. fst (execute_sql demo_env demo_req []) = Inr (Dict [(lit ''data'', Records recs)])
          \<and> map_of (recs ! 1) (lit ''shape'') = Some (PStr [])"
    using 1 by (simp add: demo_rs_shape)
  from demo_connects h2 h3 h4 n z q 1 2 show ?thesis
    by (simp add: demo_rs_shape)
qed

text \<open>
  C10 (as stated, fails for a FORMAT that cannot go into a header). The claim: any FORMAT
  other than \<^verbatim>\<open>excel\<close> gives a delimited-text export whose file name ends in the FORMAT
  string. The file name is sent in the Content-Disposition header, which the response
  encodes as Latin-1: with FORMAT the euro sign (code point 8364) and a valid delimiter the
  constructor raises and nothing is exported.
\<close>

theorem C10_format_not_latin1_counterexample:
  "FORMAT (demo_req\<lparr>DELIMITER := lit '','', FORMAT := [Wide 8108]\<rparr>) \<noteq> lit ''excel''
   \<and> DELIMITER (demo_req\<lparr>DELIMITER := lit '','', FORMAT := [Wide 8108]\<rparr>) = [Ch (CHR '','')]
   \<and> odbc_connect demo_env
        (get_conn_str (demo_req\<lparr>DELIMITER := lit '','', FORMAT := [Wide 8108]\<rparr>)) = None
   \<and> odbc_execute demo_env
        (QUERY (demo_req\<lparr>DELIMITER := lit '','', FORMAT := [Wide 8108]\<rparr>)) = Inr demo_rs
   \<and> isl (fst (download_file demo_env (demo_req\<lparr>DELIMITER := lit '','', FORMAT := [Wide 8108]\<rparr>) []))"
proof -
  define r where "r = demo_req\<lparr>DELIMITER := lit '','', FORMAT := [Wide 8108]\<rparr>"
  have f: "FORMAT r \<noteq> lit ''excel''" and d: "DELIMITER r = [Ch (CHR '','')]"
    and l: "\<not> is_latin1 (FORMAT r)"
    by (simp_all add: r_def is_latin1_def)
  have c: "odbc_connect demo_env (get_conn_str r) = None"
    by (simp add: r_def demo_env_def demo_req_def get_conn_str_def)
  have q: "odbc_execute demo_env (QUERY r) = Inr demo_rs"
    by (simp add: r_def demo_env_def demo_req_def)
  from download_file_export_fails [OF c q export_response_bad_format [OF f l], of "[]"]
  have "isl (fst (download_file demo_env r []))"
    by simp
  with f d c q show ?thesis
    unfolding r_def by (intro conjI)
qed

text \<open>
  C10, amended. For a \<^verbatim>\<open>/download\<close> request whose connection and query succeed:
  with a FORMAT other than \<^verbatim>\<open>excel\<close>, every response returned is the delimited text, with
  media type \<^verbatim>\<open>text/csv\<close> exactly when FORMAT is \<^verbatim>\<open>csv\<close> and \<^verbatim>\<open>text/plain\<close> otherwise, and
  a file name ending in the FORMAT string as given; it is returned when DELIMITER is one
  character, the text can be encoded as UTF-8 and FORMAT has no character above code point
  255; with such a character in FORMAT the request fails. With FORMAT \<^verbatim>\<open>excel\<close> the whole
  outcome is the same for every DELIMITER.
\<close>

theorem C10_format_dispatch:
  assumes "odbc_connect env (get_conn_str req) = None"
      and "odbc_execute env (QUERY req) = Inr rs"
  shows "(FORMAT req \<noteq> lit ''excel'' \<and> DELIMITER req = [d] \<and> is_latin1 (FORMAT req)
            \<and> encode_utf8 (csv_text env d (result_frame env rs)) = Inr body \<longrightarrow>
            (\<exists>media.
               fst (download_file env req s) =
                 Inr (StreamingResponse body media
                        [(lit ''Content-Disposition'',
                          lit ''attachment; filename=query_export.'' @ FORMAT req)])
               \<and> (media = lit ''text/csv'') = (FORMAT req = lit ''csv'')
               \<and> (media = lit ''text/plain'') = (FORMAT req \<noteq> lit ''csv'')))
     \<and> (FORMAT req \<noteq> lit ''excel'' \<and> fst (download_file env req s) = Inr resp \<longrightarrow>
            (\<exists>out media.
               resp = StreamingResponse out media
                        [(lit ''Content-Disposition'',
                          lit ''attachment; filename=query_export.'' @ FORMAT req)]
               \<and> (media = lit ''text/csv'') = (FORMAT req = lit ''csv'')
               \<and> (media = lit ''text/plain'') = (FORMAT req \<noteq> lit ''csv'')))
     \<and> (FORMAT req \<noteq> lit ''excel'' \<and> \<not> is_latin1 (FORMAT req) \<longrightarrow>
            isl (fst (download_file env req s)))
     \<and> (FORMAT req = lit ''excel'' \<longrightarrow>
            download_file env (req\<lparr>DELIMITER := dl\<rparr>) s = download_file env req s)"
proof (intro conjI impI)
  let ?media = "if FORMAT req = lit ''csv'' then lit ''text/csv'' else lit ''text/plain''"
  have m1: "(?media = lit ''text/csv'') = (FORMAT req = lit ''csv'')"
    by simp
  have m2: "(?media = lit ''text/plain'') = (FORMAT req \<noteq> lit ''csv'')"
    by simp
  {
    assume a: "FORMAT req \<noteq> lit ''excel'' \<and> DELIMITER req = [d] \<and> is_latin1 (FORMAT req)
        \<and> encode_utf8 (csv_text env d (result_frame env rs)) = Inr body"
    then have a1: "FORMAT req \<noteq> lit ''excel''" and a2: "DELIMITER req = [d]"
      and a3: "encode_utf8 (csv_text env d (result_frame env rs)) = Inr body"
      and a4: "is_latin1 (FORMAT req)"
      by blast+
    have "export_response env req (result_frame env rs) =
        Inr (StreamingResponse body ?media
               [(lit ''Content-Disposition'', lit ''attachment; filename=query_export.'' @ FORMAT req)])"
      using a1 a2 a3 a4 by (rule export_response_csv_ok)
    from download_file_exported [OF assms this, of s]
    have "fst (download_file env req s) =
        Inr (StreamingResponse body ?media
               [(lit ''Content-Disposition'', lit ''attachment; filename=query_export.'' @ FORMAT req)])"
      by simp
    with m1 m2 show "\<exists>media.
        fst (download_file env req s) =
          Inr (StreamingResponse body media
                 [(lit ''Content-Disposition'', lit ''attachment; filename=query_export.'' @ FORMAT req)])
        \<and> (media = lit ''text/csv'') = (FORMAT req = lit ''csv'')
        \<and> (media = lit ''text/plain'') = (FORMAT req \<noteq> lit ''csv'')"
      by blast
  }
  {
    assume a: "FORMAT req \<noteq> lit ''excel'' \<and> fst (download_file env req s) = Inr resp"
    then have "export_response env req (result_frame env rs) = Inr resp"
      using download_file_fetched [OF assms, of s]
      by (cases "export_response env req (result_frame env rs)") simp_all
    from export_response_csv_only [OF _ this] a
    obtain out where "resp = StreamingResponse out ?media
        [(lit ''Content-Disposition'', lit ''attachment; filename=query_export.'' @ FORMAT req)]"
      by blast
    with m1 m2 show "\<exists>out media.
        resp = StreamingResponse out media
                 [(lit ''Content-Disposition'', lit ''attachment; filename=query_export.'' @ FORMAT req)]
        \<and> (media = lit ''text/csv'') = (FORMAT req = lit ''csv'')
        \<and> (media = lit ''text/plain'') = (FORMAT req \<noteq> lit ''csv'')"
      by blast
  }
  {
    assume a: "FORMAT req \<noteq> lit ''excel'' \<and> \<not> is_latin1 (FORMAT req)"
    then have "isl (export_response env req (result_frame env rs))"
      using export_response_bad_format [of req env "result_frame env rs"] by blast
    from download_file_export_fails [OF assms this, of s]
    show "isl (fst (download_file env req s))"
      by simp
  }
  {
    assume x: "FORMAT req = lit ''excel''"
    have g: "get_conn_str (req\<lparr>DELIMITER := dl\<rparr>) = get_conn_str req"
      by (simp add: get_conn_str_def)
    have b: "fill_buffer env (req\<lparr>DELIMITER := dl\<rparr>) df = fill_buffer env req df" for df
      using x by (simp add: fill_buffer_def)
    have e: "export_response env (req\<lparr>DELIMITER := dl\<rparr>) df = export_response env req df" for df
      by (simp add: export_response_def b)
    have t: "download_try env (req\<lparr>DELIMITER := dl\<rparr>) c s1 = download_try env req c s1" for c s1
      by (simp add: download_try_def e split: prod.splits sum.splits option.splits)
    have "get_db_connection env (req\<lparr>DELIMITER := dl\<rparr>) s = get_db_connection env req s"
      by (simp add: get_db_connection_def g)
    then show "download_file env (req\<lparr>DELIMITER := dl\<rparr>) s = download_file env req s"
      by (simp add: download_file_def t split: prod.splits sum.splits option.splits)
  }
qed

theorem C10_format_dispatch_witness:
  "odbc_connect demo_env (get_conn_str (demo_req\<lparr>FORMAT := lit ''txt''\<rparr>)) = None
   \<and> odbc_execute demo_env (QUERY (demo_req\<lparr>FORMAT := lit ''txt''\<rparr>)) = Inr demo_rs
   \<and> FORMAT (demo_req\<lparr>FORMAT := lit ''txt''\<rparr>) \<noteq> lit ''excel''
   \<and> DELIMITER (demo_req\<lparr>FORMAT := lit ''txt''\<rparr>) = [Ch (CHR '';'')]
   \<and> is_latin1 (FORMAT (demo_req\<lparr>FORMAT := lit ''txt''\<rparr>))
   \<and> fst (download_file demo_env (demo_req\<lparr>FORMAT := lit ''txt''\<rparr>) []) =
        Inr (StreamingResponse
               (''id;note;shape\<newline>1;;b'P'\<newline>;'' @ [CHR 0x22] @ ''a;b'' @ [CHR 0x22] @ '';\<newline>'')
               (lit ''text/plain'')
               [(lit ''Content-Disposition'', lit ''attachment; filename=query_export.txt'')])"
proof -
  define r where "r = demo_req\<lparr>FORMAT := lit ''txt''\<rparr>"
  have h1: "odbc_connect demo_env (get_conn_str r) = None"
    by (simp add: r_def demo_env_def demo_req_def get_conn_str_def)
  have h2: "odbc_execute demo_env (QUERY r) = Inr demo_rs"
    by (simp add: r_def demo_env_def demo_req_def)
  have f: "FORMAT r = lit ''txt''"
    by (simp add: r_def)
  have f': "FORMAT r \<noteq> lit ''excel''" and d: "DELIMITER r = [Ch (CHR '';'')]"
    and l: "is_latin1 (FORMAT r)"
    by (simp_all add: r_def demo_req_def is_latin1_def)
  note t = C10_format_dispatch [OF h1 h2, where d = "Ch (CHR '';'')" and s = "[]",
      THEN conjunct1, THEN mp, OF conjI [OF f' conjI [OF d conjI [OF l demo_csv_body]]]]
  from t obtain media where
    m: "fst (download_file demo_env r []) =
        Inr (StreamingResponse
               (''id;note;shape\<newline>1;;b'P'\<newline>;'' @ [CHR 0x22] @ ''a;b'' @ [CHR 0x22] @ '';\<newline>'')
               media
               [(lit ''Content-Disposition'', lit ''attachment; filename=query_export.'' @ FORMAT r)])"
    and p: "(media = lit ''text/plain'') = (FORMAT r \<noteq> lit ''csv'')"
    by (elim conjE exE)
  from p have "media = lit ''text/plain''"
    by (simp add: f)
  with m have "fst (download_file demo_env r []) =
        Inr (StreamingResponse
               (''id;note;shape\<newline>1;;b'P'\<newline>;'' @ [CHR 0x22] @ ''a;b'' @ [CHR 0x22] @ '';\<newline>'')
               (lit ''text/plain'')
               [(lit ''Content-Disposition'', lit ''attachment; filename=query_export.txt'')])"
    by (simp add: f)
  with h1 h2 f' d l show ?thesis
    unfolding r_def by (intro conjI)
qed

end
